theory Spec2Isabelle
  imports Main
begin

section \<open>Strings\<close>

text \<open>
  A Python \<open>str\<close> is a sequence of code points. It is modelled as a \<^typ>\<open>string\<close>, each
  \<^typ>\<open>char\<close> standing for the code point of the same number, so the model covers the
  strings over U+0000 to U+00FF. The character classes below are Python's, on that range.
\<close>

definition code :: "char \<Rightarrow> nat" where
  "code c = of_char c"

text \<open>
  \<open>str.split(sep)\<close> for a separator of one character. The result is never empty, so the
  last case of the second equation is never taken.
\<close>

fun split :: "char \<Rightarrow> string \<Rightarrow> string list" where
  "split sep [] = [] # []"
| "split sep (c # cs) =
     (if c = sep then [] # split sep cs
      else (case split sep cs of
              field # fields \<Rightarrow> (c # field) # fields
            | [] \<Rightarrow> [c] # []))"

text \<open>\<open>str.isspace\<close> on one character; \<open>str.strip()\<close> removes these at both ends.\<close>

definition isspace :: "char \<Rightarrow> bool" where
  "isspace c = (code c \<in> {0x09, 0x0A, 0x0B, 0x0C, 0x0D, 0x1C, 0x1D, 0x1E, 0x1F, 0x20, 0x85, 0xA0})"

definition strip :: "string \<Rightarrow> string" where
  "strip s = rev (dropWhile isspace (rev (dropWhile isspace s)))"

text \<open>\<open>str.startswith\<close>, returning the rest of the string after the prefix.\<close>

fun after_prefix :: "string \<Rightarrow> string \<Rightarrow> string option" where
  "after_prefix [] s = Some s"
| "after_prefix (p # ps) [] = None"
| "after_prefix (p # ps) (c # cs) = (if p = c then after_prefix ps cs else None)"

section \<open>Conversation state\<close>

text \<open>
  A message is the dictionary \<open>{"role": role, "content": content}\<close>; \<open>AgentState\<close> is the
  dataclass of the source. The \<open>client\<close> field of \<open>ReActAgent\<close> is the external model
  collaborator and is a parameter of the loop further down.
\<close>

record message =
  role :: string
  content :: string

record AgentState =
  messages :: "message list"
  system_prompt :: string

text \<open>\<open>ReActAgent.__init__\<close>\<close>

definition ReActAgent :: "string \<Rightarrow> AgentState" where
  "ReActAgent prompt =
     \<lparr>messages = [\<lparr>role = ''system'', content = prompt\<rparr>], system_prompt = prompt\<rparr>"

text \<open>\<open>ReActAgent.add_message\<close>: an append, with no check on either argument.\<close>

definition add_message :: "string \<Rightarrow> string \<Rightarrow> AgentState \<Rightarrow> AgentState" where
  "add_message r c st = st\<lparr>messages := messages st @ [\<lparr>role = r, content = c\<rparr>]\<rparr>"

section \<open>Response parser\<close>

text \<open>
  \<open>\w\<close> of a \<open>str\<close> pattern compiled without flags is Unicode-aware: a character is a
  word character when \<open>str.isalnum\<close> holds of it or it is the underscore.
\<close>

definition ascii_word :: "char \<Rightarrow> bool" where
  "ascii_word c = (let n = code c in
     (0x30 \<le> n \<and> n \<le> 0x39) \<or> (0x41 \<le> n \<and> n \<le> 0x5A) \<or> (0x61 \<le> n \<and> n \<le> 0x7A) \<or> n = 0x5F)"

definition word_char :: "char \<Rightarrow> bool" where
  "word_char c = (let n = code c in
     ascii_word c \<or> n \<in> {0xAA, 0xB2, 0xB3, 0xB5, 0xB9, 0xBA, 0xBC, 0xBD, 0xBE}
     \<or> (0xC0 \<le> n \<and> n \<le> 0xD6) \<or> (0xD8 \<le> n \<and> n \<le> 0xF6) \<or> 0xF8 \<le> n)"

text \<open>
  \<open>ACTION_PATTERN.match(a)\<close> for \<open>ACTION_PATTERN = re.compile("^Action: (\w+): (.*)$")\<close>,
  returning the two groups. \<open>\w+\<close> is the longest run of word characters (a shorter run
  would be followed by a word character, not by the colon); \<open>.\<close> matches every character
  but the newline, and \<open>$\<close> matches at the end of the string or before a final newline.
\<close>

definition ACTION_PATTERN_match :: "string \<Rightarrow> (string \<times> string) option" where
  "ACTION_PATTERN_match a =
     (case after_prefix ''Action: '' a of
        None \<Rightarrow> None
      | Some r \<Rightarrow>
          (let name = takeWhile word_char r in
           if name = [] then None
           else (case after_prefix '': '' (dropWhile word_char r) of
                   None \<Rightarrow> None
                 | Some r' \<Rightarrow>
                     (let arg = takeWhile (\<lambda>c. c \<noteq> CHR 0x0A) r';
                          rest = dropWhile (\<lambda>c. c \<noteq> CHR 0x0A) r'
                      in if rest = [] \<or> rest = [CHR 0x0A] then Some (name, arg) else None))))"

text \<open>
  The list comprehension of \<open>query\<close>:
  \<open>[ACTION_PATTERN.match(a) for a in result.split("\n") if ACTION_PATTERN.match(a)]\<close>
\<close>

definition actions :: "string \<Rightarrow> (string \<times> string) list" where
  "actions result = List.map_filter ACTION_PATTERN_match (split (CHR 0x0A) result)"

text \<open>
  The action grammar in the words of the specification: the marker, a name matching
  \<open>[A-Za-z0-9_]+\<close>, a colon and a space, and the rest of the line.
\<close>

definition spec_action_line :: "string \<Rightarrow> (string \<times> string) option" where
  "spec_action_line a =
     (case after_prefix ''Action: '' a of
        None \<Rightarrow> None
      | Some r \<Rightarrow>
          (let name = takeWhile ascii_word r in
           if name = [] then None
           else (case after_prefix '': '' (dropWhile ascii_word r) of
                   None \<Rightarrow> None
                 | Some arg \<Rightarrow> Some (name, arg))))"

section \<open>Floats\<close>

text \<open>
  A Python \<open>float\<close> is an IEEE 754 double. \<open>Finite s m e\<close> is the double of sign \<open>s\<close>
  (\<open>True\<close> for negative) and magnitude \<open>m * 2 ^ e\<close>, kept in one form: zero is
  \<open>Finite s 0 0\<close>, a subnormal has \<open>e = - 1074\<close> and \<open>m < 2 ^ 52\<close>, and a normal number has
  \<open>2 ^ 52 \<le> m < 2 ^ 53\<close> and \<open>- 1074 \<le> e \<le> 971\<close>. Every operation rounds its exact
  result to the nearest double, ties to the even mantissa, as the hardware and the
  interpreter's string conversions do.
\<close>

datatype pyfloat = Finite bool nat int | Infinity bool | NaN

text \<open>The number of binary digits of \<open>n\<close>.\<close>

fun bitlen :: "nat \<Rightarrow> nat" where
  "bitlen n = (if n = 0 then 0 else Suc (bitlen (n div 2)))"

declare bitlen.simps [simp del]

text \<open>\<open>(p / q) * b ^ e\<close> is the fraction \<open>mul_pow b p e / div_pow b q e\<close>.\<close>

definition mul_pow :: "nat \<Rightarrow> nat \<Rightarrow> int \<Rightarrow> nat" where
  "mul_pow b p e = (if 0 \<le> e then p * b ^ nat e else p)"

definition div_pow :: "nat \<Rightarrow> nat \<Rightarrow> int \<Rightarrow> nat" where
  "div_pow b q e = (if 0 \<le> e then q else q * b ^ nat (- e))"

text \<open>The integer nearest to \<open>n / d\<close>, a tie going to the even one.\<close>

definition round_half_even :: "nat \<Rightarrow> nat \<Rightarrow> nat" where
  "round_half_even n d =
     (if d < 2 * (n mod d) \<or> (2 * (n mod d) = d \<and> odd (n div d)) then n div d + 1 else n div d)"

text \<open>
  The exponent of the double nearest to \<open>p / q\<close>, for \<open>p > 0\<close>: the \<open>e\<close> that puts
  \<open>p / q / 2 ^ e\<close> in \<open>[2 ^ 52, 2 ^ 53)\<close>, which is \<open>e0\<close> or \<open>e0 + 1\<close> for the estimate \<open>e0\<close>
  from the bit lengths, and no less than the exponent of the subnormals.
\<close>

definition pick_exponent :: "nat \<Rightarrow> nat \<Rightarrow> int \<Rightarrow> int" where
  "pick_exponent p q e0 =
     max (if mul_pow 2 p (- e0) div div_pow 2 q (- e0) < 2 ^ 53 then e0 else e0 + 1) (- 1074)"

definition exponent_of :: "nat \<Rightarrow> nat \<Rightarrow> int" where
  "exponent_of p q = pick_exponent p q (int (bitlen p) - int (bitlen q) - 53)"

text \<open>The double of mantissa \<open>m \<le> 2 ^ 53\<close> and exponent \<open>e\<close>; too large a value is an infinity.\<close>

definition pack :: "bool \<Rightarrow> nat \<Rightarrow> int \<Rightarrow> pyfloat" where
  "pack s m e =
     (if m = 2 ^ 53 then (if 971 \<le> e then Infinity s else Finite s (2 ^ 52) (e + 1))
      else if 971 < e then Infinity s
      else if m = 0 then Finite s 0 0
      else Finite s m e)"

definition round_at :: "bool \<Rightarrow> nat \<Rightarrow> nat \<Rightarrow> int \<Rightarrow> pyfloat" where
  "round_at s p q e = pack s (round_half_even (mul_pow 2 p (- e)) (div_pow 2 q (- e))) e"

text \<open>The double nearest to \<open>p / q\<close>, with sign \<open>s\<close>.\<close>

definition round_double :: "bool \<Rightarrow> nat \<Rightarrow> nat \<Rightarrow> pyfloat" where
  "round_double s p q = (if p = 0 then Finite s 0 0 else round_at s p q (exponent_of p q))"

text \<open>The double nearest to \<open>m * 2 ^ e\<close>.\<close>

definition round_dyadic :: "bool \<Rightarrow> nat \<Rightarrow> int \<Rightarrow> pyfloat" where
  "round_dyadic s m e = round_double s (mul_pow 2 m e) (div_pow 2 1 e)"

text \<open>\<open>x * y\<close> on floats.\<close>

fun float_mul :: "pyfloat \<Rightarrow> pyfloat \<Rightarrow> pyfloat" where
  "float_mul (Finite s1 m1 e1) (Finite s2 m2 e2) = round_dyadic (s1 \<noteq> s2) (m1 * m2) (e1 + e2)"
| "float_mul (Finite s1 m1 e1) (Infinity s2) = (if m1 = 0 then NaN else Infinity (s1 \<noteq> s2))"
| "float_mul (Infinity s1) (Finite s2 m2 e2) = (if m2 = 0 then NaN else Infinity (s1 \<noteq> s2))"
| "float_mul (Infinity s1) (Infinity s2) = Infinity (s1 \<noteq> s2)"
| "float_mul NaN y = NaN"
| "float_mul x NaN = NaN"

definition signed :: "bool \<Rightarrow> nat \<Rightarrow> int" where
  "signed s m = (if s then - int m else int m)"

text \<open>
  \<open>x + y\<close> on floats. For finite operands, \<open>c * 2 ^ e\<close> is the exact sum; an exact sum
  of zero is \<open>-0.0\<close> only when both operands are negative zeros.
\<close>

definition finish_sum :: "bool \<Rightarrow> int \<Rightarrow> int \<Rightarrow> pyfloat" where
  "finish_sum z c e = (if c = 0 then Finite z 0 0 else round_dyadic (c < 0) (nat \<bar>c\<bar>) e)"

definition sum_at :: "bool \<Rightarrow> nat \<Rightarrow> int \<Rightarrow> bool \<Rightarrow> nat \<Rightarrow> int \<Rightarrow> int \<Rightarrow> pyfloat" where
  "sum_at s1 m1 e1 s2 m2 e2 e =
     finish_sum (s1 \<and> s2)
       (signed s1 (m1 * 2 ^ nat (e1 - e)) + signed s2 (m2 * 2 ^ nat (e2 - e))) e"

fun float_add :: "pyfloat \<Rightarrow> pyfloat \<Rightarrow> pyfloat" where
  "float_add (Finite s1 m1 e1) (Finite s2 m2 e2) = sum_at s1 m1 e1 s2 m2 e2 (min e1 e2)"
| "float_add (Finite s1 m1 e1) (Infinity s2) = Infinity s2"
| "float_add (Infinity s1) (Finite s2 m2 e2) = Infinity s1"
| "float_add (Infinity s1) (Infinity s2) = (if s1 = s2 then Infinity s1 else NaN)"
| "float_add NaN y = NaN"
| "float_add x NaN = NaN"

section \<open>Formatting floats\<close>

definition digit_char :: "nat \<Rightarrow> char" where
  "digit_char d = char_of (48 + d)"

text \<open>\<open>str(n)\<close> for a natural number.\<close>

fun str_nat :: "nat \<Rightarrow> string" where
  "str_nat n = (if n < 10 then [digit_char n] else str_nat (n div 10) @ [digit_char (n mod 10)])"

declare str_nat.simps [simp del]

definition sign_str :: "bool \<Rightarrow> string" where
  "sign_str s = (if s then ''-'' else [])"

text \<open>
  \<open>format(x, ".2f")\<close>: the exact value of the double rounded to a whole number \<open>n\<close> of
  hundredths, ties to even, and written with two decimals.
\<close>

definition hundredths :: "bool \<Rightarrow> nat \<Rightarrow> string" where
  "hundredths s n =
     sign_str s @ str_nat (n div 100) @ ''.'' @ [digit_char (n div 10 mod 10), digit_char (n mod 10)]"

fun format_2f :: "pyfloat \<Rightarrow> string" where
  "format_2f NaN = ''nan''"
| "format_2f (Infinity s) = sign_str s @ ''inf''"
| "format_2f (Finite s m e) =
     hundredths s (round_half_even (mul_pow 2 (m * 100) e) (div_pow 2 1 e))"

text \<open>
  \<open>repr(x)\<close>, which is also \<open>str(x)\<close> and what an f-string without a format gives: the
  shortest decimal digits that read back as the same double, the nearest to it among
  those, written in positional notation with at least one decimal, or with an exponent
  when the decimal point falls outside the digits by too much.

  \<open>decimal_exponent p q\<close> is the \<open>k\<close> with \<open>10 ^ (k - 1) \<le> p / q < 10 ^ k\<close>, for \<open>p > 0\<close>.
\<close>

function small_exponent :: "nat \<Rightarrow> nat \<Rightarrow> nat \<Rightarrow> nat" where
  "small_exponent p q z = (if p = 0 \<or> q \<le> p * 10 ^ z then z else small_exponent p q (Suc z))"
  by pat_completeness auto
termination
proof (relation "measure (\<lambda>(p, q, z). q - p * 10 ^ z)")
  show "wf (measure (\<lambda>(p, q, z). q - p * 10 ^ z))" by simp
next
  fix p q z :: nat
  assume "\<not> (p = 0 \<or> q \<le> p * 10 ^ z)"
  then have "p * 10 ^ z < q" "0 < p" by auto
  moreover have "p * 10 ^ z < p * 10 ^ Suc z" using \<open>0 < p\<close> by simp
  ultimately show "((p, q, Suc z), (p, q, z)) \<in> measure (\<lambda>(p, q, z). q - p * 10 ^ z)"
    by (simp add: diff_less_mono2)
qed

declare small_exponent.simps [simp del]

definition decimal_exponent :: "nat \<Rightarrow> nat \<Rightarrow> int" where
  "decimal_exponent p q =
     (if q \<le> p then int (length (str_nat (p div q))) else 1 - int (small_exponent p q 1))"

text \<open>
  With \<open>n\<close> significant digits, \<open>num / den\<close> is the value scaled to \<open>n\<close> digits before the
  point; the two whole numbers around it are the candidates, and one is kept if it reads
  back as \<open>x\<close>.
\<close>

definition reads_back :: "pyfloat \<Rightarrow> bool \<Rightarrow> nat \<Rightarrow> int \<Rightarrow> bool" where
  "reads_back x s c d = (round_double s (mul_pow 10 c d) (div_pow 10 1 d) = x)"

definition pick_candidate :: "nat \<Rightarrow> nat \<Rightarrow> bool \<Rightarrow> bool \<Rightarrow> nat option" where
  "pick_candidate num den ok_lo ok_hi =
     (if ok_lo \<and> ok_hi then Some (round_half_even num den)
      else if ok_lo then Some (num div den)
      else if ok_hi then Some (num div den + 1)
      else None)"

definition candidate_of :: "pyfloat \<Rightarrow> bool \<Rightarrow> int \<Rightarrow> nat \<Rightarrow> nat \<Rightarrow> nat option" where
  "candidate_of x s d num den =
     pick_candidate num den (reads_back x s (num div den) d)
       (num mod den \<noteq> 0 \<and> reads_back x s (num div den + 1) d)"

definition candidate :: "pyfloat \<Rightarrow> bool \<Rightarrow> nat \<Rightarrow> nat \<Rightarrow> int \<Rightarrow> nat \<Rightarrow> nat option" where
  "candidate x s p q k n =
     candidate_of x s (k - int n) (mul_pow 10 p (int n - k)) (div_pow 10 q (int n - k))"

text \<open>The first length with a candidate; seventeen digits always read back.\<close>

fun shortest :: "pyfloat \<Rightarrow> bool \<Rightarrow> nat \<Rightarrow> nat \<Rightarrow> int \<Rightarrow> nat list \<Rightarrow> nat \<times> nat" where
  "shortest x s p q k [] = (round_half_even (mul_pow 10 p (17 - k)) (div_pow 10 q (17 - k)), 17)"
| "shortest x s p q k (n # ns) =
     (case candidate x s p q k n of Some c \<Rightarrow> (c, n) | None \<Rightarrow> shortest x s p q k ns)"

definition strip_zeros :: "string \<Rightarrow> string" where
  "strip_zeros ds = rev (dropWhile (\<lambda>c. c = CHR ''0'') (rev ds))"

definition two_digits :: "nat \<Rightarrow> string" where
  "two_digits n = (if n < 10 then CHR ''0'' # str_nat n else str_nat n)"

text \<open>The digits \<open>ds\<close> with the decimal point after the first \<open>decpt\<close> of them.\<close>

definition repr_finite :: "string \<Rightarrow> int \<Rightarrow> string" where
  "repr_finite ds decpt =
     (if decpt \<le> - 4 \<or> 16 < decpt then
        take 1 ds @ (if 1 < length ds then ''.'' @ drop 1 ds else [])
          @ ''e'' @ (if decpt - 1 < 0 then ''-'' else ''+'') @ two_digits (nat \<bar>decpt - 1\<bar>)
      else if decpt \<le> 0 then ''0.'' @ replicate (nat (- decpt)) (CHR ''0'') @ ds
      else if int (length ds) \<le> decpt then ds @ replicate (nat decpt - length ds) (CHR ''0'') @ ''.0''
      else take (nat decpt) ds @ ''.'' @ drop (nat decpt) ds)"

definition repr_digits :: "bool \<Rightarrow> int \<Rightarrow> nat \<times> nat \<Rightarrow> string" where
  "repr_digits s k cn =
     sign_str s @ repr_finite (strip_zeros (str_nat (fst cn)))
                    (k + int (length (str_nat (fst cn))) - int (snd cn))"

definition repr_scaled :: "pyfloat \<Rightarrow> bool \<Rightarrow> nat \<Rightarrow> nat \<Rightarrow> int \<Rightarrow> string" where
  "repr_scaled x s p q k = repr_digits s k (shortest x s p q k [1..<18])"

definition repr_fraction :: "pyfloat \<Rightarrow> bool \<Rightarrow> nat \<Rightarrow> nat \<Rightarrow> string" where
  "repr_fraction x s p q = repr_scaled x s p q (decimal_exponent p q)"

fun repr :: "pyfloat \<Rightarrow> string" where
  "repr NaN = ''nan''"
| "repr (Infinity s) = sign_str s @ ''inf''"
| "repr (Finite s m e) =
     (if m = 0 then sign_str s @ ''0.0''
      else repr_fraction (Finite s m e) s (mul_pow 2 m e) (div_pow 2 1 e))"

section \<open>Parsing floats\<close>

text \<open>
  \<open>float(s)\<close> for a string: \<open>None\<close> stands for the \<open>ValueError\<close> it raises. Whitespace is
  removed at both ends (the ASCII whitespace and the non-ASCII spaces, but not U+001C to
  U+001F), an underscore is allowed between two digits, and the text is a sign and then
  \<open>inf\<close>, \<open>infinity\<close> or \<open>nan\<close> in any case, or a decimal number with an optional
  fraction and exponent. The value is the double nearest to the number written.
\<close>

definition is_digit :: "char \<Rightarrow> bool" where
  "is_digit c = (0x30 \<le> code c \<and> code c \<le> 0x39)"

fun decimal :: "nat \<Rightarrow> string \<Rightarrow> nat" where
  "decimal acc [] = acc"
| "decimal acc (c # cs) = decimal (10 * acc + (code c - 48)) cs"

definition float_space :: "char \<Rightarrow> bool" where
  "float_space c = (code c \<in> {0x09, 0x0A, 0x0B, 0x0C, 0x0D, 0x20, 0x85, 0xA0})"

fun underscores_ok :: "char \<Rightarrow> string \<Rightarrow> bool" where
  "underscores_ok prev [] = (prev \<noteq> CHR ''_'')"
| "underscores_ok prev (c # cs) =
     ((if c = CHR ''_'' then is_digit prev else (prev = CHR ''_'' \<longrightarrow> is_digit c))
      \<and> underscores_ok c cs)"

definition ascii_lower :: "char \<Rightarrow> char" where
  "ascii_lower c = (if 0x41 \<le> code c \<and> code c \<le> 0x5A then char_of (code c + 32) else c)"

definition take_sign :: "string \<Rightarrow> bool \<times> string" where
  "take_sign s =
     (case s of
        c # cs \<Rightarrow>
          if c = CHR ''-'' then (True, cs) else if c = CHR ''+'' then (False, cs) else (False, s)
      | [] \<Rightarrow> (False, s))"

definition decimal_scaled :: "bool \<Rightarrow> nat \<Rightarrow> int \<Rightarrow> pyfloat" where
  "decimal_scaled s m e = round_double s (mul_pow 10 m e) (div_pow 10 1 e)"

definition decimal_value :: "bool \<Rightarrow> string \<Rightarrow> string \<Rightarrow> int \<Rightarrow> pyfloat" where
  "decimal_value s ip fp x = decimal_scaled s (decimal 0 (ip @ fp)) (x - int (length fp))"

definition parse_exponent :: "string \<Rightarrow> int option" where
  "parse_exponent r =
     (case r of
        [] \<Rightarrow> Some 0
      | c # cs \<Rightarrow>
          if c = CHR ''e'' \<or> c = CHR ''E'' then
            (let (neg, ds) = take_sign cs
             in if ds \<noteq> [] \<and> list_all is_digit ds
                then Some (if neg then - int (decimal 0 ds) else int (decimal 0 ds))
                else None)
          else None)"

definition parse_number :: "string \<Rightarrow> pyfloat option" where
  "parse_number t =
     (let (neg, r1) = take_sign t; name = map ascii_lower r1
      in if name = ''inf'' \<or> name = ''infinity'' then Some (Infinity neg)
         else if name = ''nan'' then Some NaN
         else
           let ip = takeWhile is_digit r1; r2 = dropWhile is_digit r1;
               dot = (r2 \<noteq> [] \<and> hd r2 = CHR ''.'');
               fp = (if dot then takeWhile is_digit (tl r2) else []);
               r3 = (if dot then dropWhile is_digit (tl r2) else r2)
           in if ip = [] \<and> fp = [] then None
              else map_option (decimal_value neg ip fp) (parse_exponent r3))"

definition float :: "string \<Rightarrow> pyfloat option" where
  "float s =
     (if underscores_ok (CHR 0x00) s
      then parse_number
             (filter (\<lambda>c. c \<noteq> CHR ''_'')
                (rev (dropWhile float_space (rev (dropWhile float_space s)))))
      else None)"

section \<open>Outcomes\<close>

text \<open>
  A call returns a value or raises. The exceptions are the ones the modelled code can raise;
  \<open>ValueError\<close> carries its message. \<open>Unmodelled\<close> marks the calls of \<open>eval\<close> on an
  expression outside the fragment defined below: nothing is stated about those.
\<close>

datatype exn = ValueError string | SyntaxError | ZeroDivisionError | OverflowError

datatype 'a outcome = Returns 'a | Raises exn | Unmodelled

fun and_then :: "'a outcome \<Rightarrow> ('a \<Rightarrow> 'b outcome) \<Rightarrow> 'b outcome" where
  "and_then (Returns x) f = f x"
| "and_then (Raises e) f = Raises e"
| "and_then Unmodelled f = Unmodelled"

section \<open>Evaluating the multiplier\<close>

text \<open>
  \<open>eval\<close> is Python's expression evaluator. The model defines it on the empty string (a
  syntax error), on a decimal integer literal, and on two such literals joined by \<open>/\<close>
  (true division, correctly rounded) or by \<open>**\<close> (integer power); integers are unbounded.
  A literal with a leading zero that is not all zeros is a syntax error, raised at
  compilation, before anything is evaluated. Literals longer than 4300 digits are left out,
  since their treatment depends on the interpreter version.
\<close>

datatype pyval = PyInt int | PyFloat pyfloat

definition int_literal :: "string \<Rightarrow> int outcome" where
  "int_literal ds =
     (if 4300 < length ds then Unmodelled
      else if 1 < length ds \<and> hd ds = CHR ''0'' \<and> \<not> list_all (\<lambda>c. c = CHR ''0'') ds
        then Raises SyntaxError
      else Returns (int (decimal 0 ds)))"

definition true_divide :: "int \<Rightarrow> int \<Rightarrow> pyval outcome" where
  "true_divide x y =
     (if y = 0 then Raises ZeroDivisionError
      else (case round_double ((x < 0) \<noteq> (y < 0)) (nat \<bar>x\<bar>) (nat \<bar>y\<bar>) of
              Infinity s \<Rightarrow> Raises OverflowError
            | f \<Rightarrow> Returns (PyFloat f)))"

definition py_eval :: "string \<Rightarrow> pyval outcome" where
  "py_eval s =
     (let a = takeWhile is_digit s; r = dropWhile is_digit s
      in if s = [] then Raises SyntaxError
         else if a = [] then Unmodelled
         else if r = [] then and_then (int_literal a) (\<lambda>x. Returns (PyInt x))
         else if hd r = CHR ''/'' \<and> tl r \<noteq> [] \<and> list_all is_digit (tl r) then
           and_then (int_literal a) (\<lambda>x. and_then (int_literal (tl r)) (\<lambda>y. true_divide x y))
         else if take 2 r = ''**'' \<and> drop 2 r \<noteq> [] \<and> list_all is_digit (drop 2 r) then
           and_then (int_literal a) (\<lambda>x. and_then (int_literal (drop 2 r))
             (\<lambda>y. Returns (PyInt (x ^ nat y))))
         else Unmodelled)"

text \<open>
  \<open>num * multiplier\<close> for a float \<open>num\<close>: an integer multiplier is converted to a float
  first, which raises \<open>OverflowError\<close> when it is too large.
\<close>

definition int_to_float :: "int \<Rightarrow> pyfloat outcome" where
  "int_to_float k =
     (case round_double (k < 0) (nat \<bar>k\<bar>) 1 of
        Infinity s \<Rightarrow> Raises OverflowError
      | f \<Rightarrow> Returns f)"

fun multiply :: "pyfloat \<Rightarrow> pyval \<Rightarrow> pyfloat outcome" where
  "multiply num (PyFloat f) = Returns (float_mul num f)"
| "multiply num (PyInt k) = and_then (int_to_float k) (\<lambda>f. Returns (float_mul num f))"

section \<open>Tools\<close>

text \<open>\<open>str.lower\<close> on one character.\<close>

definition lower_char :: "char \<Rightarrow> char" where
  "lower_char c = (let n = code c in
     if (0x41 \<le> n \<and> n \<le> 0x5A) \<or> (0xC0 \<le> n \<and> n \<le> 0xD6) \<or> (0xD8 \<le> n \<and> n \<le> 0xDE)
     then char_of (n + 32) else c)"

definition rates :: "(string \<times> string) list" where
  "rates = [(''meters to feet'', ''3.28084''),
            (''kilometers to miles'', ''0.621371''),
            (''kilograms to pounds'', ''2.20462''),
            (''celsius to fahrenheit'', ''9/5,32'')]"

definition model_memory :: "string \<Rightarrow> string" where
  "model_memory unit =
     (case map_of rates (map lower_char unit) of
        Some r \<Rightarrow> r
      | None \<Rightarrow> ''No conversion rate found for '' @ unit)"

definition unit_map :: "(string \<times> (string \<times> string)) list" where
  "unit_map = [(''3.28084'', (''meters'', ''feet'')),
               (''0.621371'', (''kilometers'', ''miles'')),
               (''2.20462'', (''kilograms'', ''pounds''))]"

text \<open>
  \<open>apply_conversion\<close>. A \<open>float(...)\<close> that raises \<open>ValueError\<close> inside the \<open>try\<close> block is
  caught by \<open>except ValueError\<close>, so that branch returns the handler's string; so do a
  \<open>ValueError\<close> and a \<open>SyntaxError\<close> raised by \<open>eval\<close>. No other exception is caught. The
  statements run in the source's order: the value, the multiplier, the offset, then the
  arithmetic. The degree sign is U+00B0.
\<close>

definition apply_conversion :: "string \<Rightarrow> string outcome" where
  "apply_conversion rate =
     (case split (CHR '','') rate of
        [multiplier, offset, value_str] \<Rightarrow>
          (case float (strip value_str) of
             None \<Rightarrow> Returns ''Error: Please provide valid numbers''
           | Some num \<Rightarrow>
               (case py_eval (strip multiplier) of
                  Raises (ValueError msg) \<Rightarrow> Returns ''Error: Please provide valid numbers''
                | Raises SyntaxError \<Rightarrow> Returns ''Error: Invalid conversion rate format''
                | Raises e \<Rightarrow> Raises e
                | Unmodelled \<Rightarrow> Unmodelled
                | Returns multiplier' \<Rightarrow>
                    (case float (strip offset) of
                       None \<Rightarrow> Returns ''Error: Please provide valid numbers''
                     | Some offset' \<Rightarrow>
                         and_then (multiply num multiplier') (\<lambda>product.
                           let result = float_add product offset'
                           in Returns (repr num @ [CHR 0xB0] @ ''C = '' @ format_2f result
                                         @ [CHR 0xB0] @ ''F'')))))
      | [rate_str, value_str] \<Rightarrow>
          (case float (strip value_str) of
             None \<Rightarrow> Returns ''Error: Please provide valid numbers''
           | Some num \<Rightarrow>
               (case float rate_str of
                  None \<Rightarrow> Returns ''Error: Please provide valid numbers''
                | Some conversion_rate \<Rightarrow>
                    (let result = float_mul num conversion_rate;
                         (source_unit, target_unit) =
                            (case map_of unit_map rate_str of
                               Some units \<Rightarrow> units
                             | None \<Rightarrow> (''units'', ''units''))
                     in Returns (repr num @ '' '' @ source_unit @ '' = '' @ format_2f result
                                   @ '' '' @ target_unit))))
      | _ \<Rightarrow> Returns ''Error: Invalid number of parameters'')"

section \<open>Agent loop\<close>

text \<open>\<open>create_agent\<close>: an agent seeded with the tutorial's system prompt, stripped.\<close>

definition tutorial_prompt :: string where
  "tutorial_prompt =
     ''You run in a loop of Thought, Action, PAUSE, Observation.\<newline>''
     @ ''    At the end of the loop you output an Answer\<newline>''
     @ ''    Use Thought to describe your thoughts about the question you have been asked.\<newline>''
     @ ''    Use Action to run one of the actions available to you - then return PAUSE.\<newline>''
     @ ''    Observation will be the result of running those actions.\<newline>''
     @ ''    \<newline>''
     @ ''    Your available actions are:\<newline>''
     @ ''    \<newline>''
     @ ''    model_memory:\<newline>''
     @ ''    e.g. model_memory: meters to feet\<newline>''
     @ ''    Get the conversion rate for a unit (e.g., meters to feet, kilometers to miles)\<newline>''
     @ ''\<newline>''
     @ ''    apply_conversion: 3.28084, 5\<newline>''
     @ ''    Applies the conversion rate to a value and returns a number\<newline>''
     @ ''    \<newline>''
     @ ''    No other actions are available to you.\<newline>''
     @ ''    \<newline>''
     @ ''    Example session #1:\<newline>''
     @ ''    Question: Convert 5 meters to feet?\<newline>''
     @ ''    \<newline>''
     @ ''    Thought: This is a length conversion from meters to feet. First, I need to get the conversion rate\<newline>''
     @ ''    Action: get_conversion_rate: meters to feet\<newline>''
     @ ''    PAUSE\<newline>''
     @ ''\<newline>''
     @ ''    You will be called again with this:\<newline>''
     @ ''    \<newline>''
     @ ''    Observation: 3.28084\<newline>''
     @ ''\<newline>''
     @ ''    You then output:\<newline>''
     @ ''    \<newline>''
     @ ''    Thought: Now I can apply this conversion rate to 5 meters\<newline>''
     @ ''    Action: apply_conversion: 3.28084, 5\<newline>''
     @ ''    PAUSE\<newline>''
     @ ''    \<newline>''
     @ ''    Observation: 5 meters = 16.40 feet\<newline>''
     @ ''    \<newline>''
     @ ''    Answer: 5 meters is equal to 16.40 feet  \<newline>''
     @ ''\<newline>''
     @ ''    Example session #2:\<newline>''
     @ ''\<newline>''
     @ ''    Question:  Convert 20'' @ [CHR 0xB0] @ ''C to Fahrenheit?\<newline>''
     @ ''    \<newline>''
     @ ''    Thought: This is a temperature conversion from Celsius to Fahrenheit. First, I need to get the conversion formula\<newline>''
     @ ''    Action: model_memory: celsius to fahrenheit\<newline>''
     @ ''    PAUSE\<newline>''
     @ ''\<newline>''
     @ ''    You will be called again with this:\<newline>''
     @ ''    \<newline>''
     @ ''    Observation: 9/5,32\<newline>''
     @ ''\<newline>''
     @ ''    You then output:\<newline>''
     @ ''    \<newline>''
     @ ''    Thought: Now I can apply this formula to 20'' @ [CHR 0xB0] @ ''C\<newline>''
     @ ''    Action: apply_conversion: 9/5,32, 20\<newline>''
     @ ''    PAUSE\<newline>''
     @ ''    \<newline>''
     @ ''    Observation: 20'' @ [CHR 0xB0] @ ''C = 68.00'' @ [CHR 0xB0] @ ''F\<newline>''
     @ ''    \<newline>''
     @ ''    Answer: 20'' @ [CHR 0xB0] @ ''C is equal to 68.00'' @ [CHR 0xB0] @ ''F''"

definition create_agent :: AgentState where
  "create_agent = ReActAgent tutorial_prompt"

text \<open>
  The model collaborator: \<open>execute\<close> sends the message log and returns the text of the
  completion. It is a parameter \<open>llm\<close> of the loop, a function of the log sent. A call that
  fails is outside the model.
\<close>

type_synonym llm = "message list \<Rightarrow> string"

definition execute :: "llm \<Rightarrow> AgentState \<Rightarrow> string" where
  "execute llm st = llm (messages st)"

text \<open>\<open>ReActAgent.__call__\<close>\<close>

definition call :: "llm \<Rightarrow> string \<Rightarrow> AgentState \<Rightarrow> string \<times> AgentState" where
  "call llm message st =
     (let st1 = add_message ''user'' message st;
          result = execute llm st1
      in (result, add_message ''assistant'' result st1))"

definition KNOWN_ACTIONS :: "string \<rightharpoonup> (string \<Rightarrow> string outcome)" where
  "KNOWN_ACTIONS = map_of [(''model_memory'', \<lambda>unit. Returns (model_memory unit)),
                           (''apply_conversion'', apply_conversion)]"

text \<open>
  The loop records what it does in a log of events, which is not a variable of the source:
  one \<open>ModelCall\<close> for each call of the collaborator, with the log sent, and one \<open>Dispatch\<close>
  for each call of a handler, with the action name and the argument. The \<open>print\<close> calls of
  the source are left out.
\<close>

datatype event = is_ModelCall: ModelCall "message list" | is_Dispatch: Dispatch string string

text \<open>
  The \<open>for turn in range(max_turns)\<close> loop of \<open>query\<close>, with the number of iterations
  left, \<open>next_prompt\<close>, the agent state and the events so far; it ends in the
  \<open>return agent.state.messages\<close> that follows the loop.
\<close>

fun turns :: "llm \<Rightarrow> nat \<Rightarrow> string \<Rightarrow> AgentState \<Rightarrow> event list
                \<Rightarrow> message list outcome \<times> event list" where
  "turns llm 0 next_prompt st evs = (Returns (messages st), evs)"
| "turns llm (Suc n) next_prompt st evs =
     (let (result, st') = call llm next_prompt st;
          evs' = evs @ [ModelCall (messages (add_message ''user'' next_prompt st))]
      in case actions result of
           [] \<Rightarrow> (Returns (messages st'), evs')
         | (action, action_input) # others \<Rightarrow>
             (case KNOWN_ACTIONS action of
                None \<Rightarrow> (Raises (ValueError (''Unknown action: '' @ action @ '': '' @ action_input)), evs')
              | Some handler \<Rightarrow>
                  (case handler action_input of
                     Returns observation \<Rightarrow>
                       turns llm n (''Observation: '' @ observation) st'
                         (evs' @ [Dispatch action action_input])
                   | Raises e \<Rightarrow> (Raises e, evs' @ [Dispatch action action_input])
                   | Unmodelled \<Rightarrow> (Unmodelled, evs' @ [Dispatch action action_input]))))"

text \<open>\<open>range(max_turns)\<close> is empty for a \<open>max_turns\<close> that is zero or negative.\<close>

definition query :: "llm \<Rightarrow> string \<Rightarrow> int \<Rightarrow> message list outcome \<times> event list" where
  "query llm question max_turns = turns llm (nat max_turns) question create_agent []"

text \<open>
  The variables of the same loop when \<open>n\<close> iterations have run and the loop goes on to
  the next one: \<open>next_prompt\<close>, the agent state and the events so far. It is \<open>None\<close>
  when the loop has ended before that, by its \<open>break\<close> or by an exception. The body is the
  body of \<open>turns\<close>; \<open>turns_after\<close> below proves that \<open>turns\<close> goes through these states.
\<close>

fun state_after :: "llm \<Rightarrow> nat \<Rightarrow> string \<Rightarrow> AgentState \<Rightarrow> event list
                      \<Rightarrow> (string \<times> AgentState \<times> event list) option" where
  "state_after llm 0 next_prompt st evs = Some (next_prompt, st, evs)"
| "state_after llm (Suc n) next_prompt st evs =
     (let (result, st') = call llm next_prompt st;
          evs' = evs @ [ModelCall (messages (add_message ''user'' next_prompt st))]
      in case actions result of
           [] \<Rightarrow> None
         | (action, action_input) # others \<Rightarrow>
             (case KNOWN_ACTIONS action of
                None \<Rightarrow> None
              | Some handler \<Rightarrow>
                  (case handler action_input of
                     Returns observation \<Rightarrow>
                       state_after llm n (''Observation: '' @ observation) st'
                         (evs' @ [Dispatch action action_input])
                   | Raises e \<Rightarrow> None
                   | Unmodelled \<Rightarrow> None)))"

section \<open>Properties of the conversation state\<close>

lemma messages_add_message:
  "messages (add_message r c st) = messages st @ [\<lparr>role = r, content = c\<rparr>]"
  by (simp add: add_message_def)

lemma system_prompt_add_message: "system_prompt (add_message r c st) = system_prompt st"
  by (simp add: add_message_def)

lemma messages_foldl_add_message:
  "messages (foldl (\<lambda>s (r, c). add_message r c s) st ops)
     = messages st @ map (\<lambda>(r, c). \<lparr>role = r, content = c\<rparr>) ops"
  by (induction ops arbitrary: st) (auto simp: messages_add_message)

text \<open>
  Claim C8, as stated, fails: a role outside system, user and assistant is appended like any
  other. Here the role \<open>tool\<close> is appended to a fresh conversation.
\<close>

theorem add_message_unrecognized_role_appended:
  "messages (add_message ''tool'' ''hello'' (ReActAgent ''You are helpful''))
     = [\<lparr>role = ''system'', content = ''You are helpful''\<rparr>, \<lparr>role = ''tool'', content = ''hello''\<rparr>]"
  by (simp add: add_message_def ReActAgent_def)

text \<open>
  Claim C8, amended: appending a message succeeds for every role string, recognized or not,
  and every content; neither is validated. The message is added at the end with the role
  and content given, and the system prompt field is unchanged.
\<close>

theorem add_message_any_role_succeeds:
  "messages (add_message r c st) = messages st @ [\<lparr>role = r, content = c\<rparr>]
   \<and> system_prompt (add_message r c st) = system_prompt st"
  by (simp add: messages_add_message system_prompt_add_message)

text \<open>
  Claim C9: for every system prompt \<open>p\<close> and every sequence \<open>ops\<close> of appends on a fresh
  agent, the log read back is the system message with the construction-time prompt followed
  by the appended messages in append order, so its first message is that system message;
  and an append to any state \<open>st\<close> makes the log one longer, leaves every earlier message
  as it was and puts the new message last.
\<close>

theorem message_log_append_only:
  "messages (foldl (\<lambda>s (r, c). add_message r c s) (ReActAgent p) ops)
     = \<lparr>role = ''system'', content = p\<rparr> # map (\<lambda>(r, c). \<lparr>role = r, content = c\<rparr>) ops
   \<and> hd (messages (foldl (\<lambda>s (r, c). add_message r c s) (ReActAgent p) ops))
     = \<lparr>role = ''system'', content = p\<rparr>
   \<and> length (messages (add_message r' c' st)) = length (messages st) + 1
   \<and> take (length (messages st)) (messages (add_message r' c' st)) = messages st
   \<and> last (messages (add_message r' c' st)) = \<lparr>role = r', content = c'\<rparr>"
  by (simp add: messages_foldl_add_message messages_add_message ReActAgent_def)

section \<open>Properties of the response parser\<close>

lemma after_prefix_iff: "after_prefix p s = Some r \<longleftrightarrow> s = p @ r"
  by (induction p s rule: after_prefix.induct) auto

lemma split_not_empty: "split sep s \<noteq> []"
  by (induction s) (auto split: list.splits)

lemma split_no_sep: "l \<in> set (split sep s) \<Longrightarrow> sep \<notin> set l"
  by (induction s arbitrary: l) (auto split: list.splits if_splits)

lemma name_then_colon:
  assumes "\<not> P (CHR '':'')"
  shows "(takeWhile P r = n \<and> n \<noteq> [] \<and> after_prefix '': '' (dropWhile P r) = Some a)
         \<longleftrightarrow> (r = n @ '': '' @ a \<and> n \<noteq> [] \<and> (\<forall>c\<in>set n. P c))"
proof
  assume l: "takeWhile P r = n \<and> n \<noteq> [] \<and> after_prefix '': '' (dropWhile P r) = Some a"
  then have "dropWhile P r = '': '' @ a" by (simp add: after_prefix_iff)
  with l have "r = n @ '': '' @ a" using takeWhile_dropWhile_id[of P r] by simp
  moreover from l have "\<forall>c\<in>set n. P c" using set_takeWhileD by fastforce
  ultimately show "r = n @ '': '' @ a \<and> n \<noteq> [] \<and> (\<forall>c\<in>set n. P c)" using l by simp
next
  assume r: "r = n @ '': '' @ a \<and> n \<noteq> [] \<and> (\<forall>c\<in>set n. P c)"
  then have "takeWhile P r = n" using assms by (simp add: takeWhile_tail)
  moreover from r have "dropWhile P r = '': '' @ a" using assms by (simp add: dropWhile_append3)
  ultimately show "takeWhile P r = n \<and> n \<noteq> [] \<and> after_prefix '': '' (dropWhile P r) = Some a"
    using r by (simp add: after_prefix_iff)
qed

lemma colon_not_word: "\<not> word_char (CHR '':'')" "\<not> ascii_word (CHR '':'')"
  by (simp_all add: word_char_def ascii_word_def code_def)

text \<open>The executable form of the specification's grammar says what its words say.\<close>

lemma spec_action_line_iff:
  "spec_action_line l = Some (n, a)
     \<longleftrightarrow> l = ''Action: '' @ n @ '': '' @ a \<and> n \<noteq> [] \<and> (\<forall>c\<in>set n. ascii_word c)"
proof (cases "after_prefix ''Action: '' l")
  case None
  then have "l \<noteq> ''Action: '' @ r" for r using after_prefix_iff[of "''Action: ''" l r] by simp
  with None show ?thesis by (simp add: spec_action_line_def)
next
  case (Some r)
  then have l: "l = ''Action: '' @ r" by (simp only: after_prefix_iff)
  have "spec_action_line l = Some (n, a) \<longleftrightarrow>
     (takeWhile ascii_word r = n \<and> n \<noteq> [] \<and> after_prefix '': '' (dropWhile ascii_word r) = Some a)"
    unfolding spec_action_line_def Some by (auto simp: Let_def split: option.splits)
  also have "\<dots> \<longleftrightarrow> (r = n @ '': '' @ a \<and> n \<noteq> [] \<and> (\<forall>c\<in>set n. ascii_word c))"
    by (rule name_then_colon[of ascii_word, OF colon_not_word(2)])
  finally show ?thesis unfolding l by simp
qed

lemma match_line_iff:
  assumes "CHR 0x0A \<notin> set l"
  shows "ACTION_PATTERN_match l = Some (n, a)
     \<longleftrightarrow> l = ''Action: '' @ n @ '': '' @ a \<and> n \<noteq> [] \<and> (\<forall>c\<in>set n. word_char c)"
proof (cases "after_prefix ''Action: '' l")
  case None
  then have "l \<noteq> ''Action: '' @ r" for r using after_prefix_iff[of "''Action: ''" l r] by simp
  with None show ?thesis by (simp add: ACTION_PATTERN_match_def)
next
  case outer: (Some r)
  then have l: "l = ''Action: '' @ r" by (simp only: after_prefix_iff)
  have nn: "takeWhile (\<lambda>c. c \<noteq> CHR 0x0A) r' = r' \<and> dropWhile (\<lambda>c. c \<noteq> CHR 0x0A) r' = []"
    if "after_prefix '': '' (dropWhile word_char r) = Some r'" for r'
  proof -
    from that have "dropWhile word_char r = '': '' @ r'" by (simp only: after_prefix_iff)
    then have "set r' \<subseteq> set (dropWhile word_char r)" by auto
    also have "\<dots> \<subseteq> set r" using set_dropWhileD by fastforce
    also have "\<dots> \<subseteq> set l" using l by auto
    finally have "CHR 0x0A \<notin> set r'" using assms by auto
    then show ?thesis by (auto simp: takeWhile_eq_all_conv dropWhile_eq_Nil_conv)
  qed
  have "ACTION_PATTERN_match l = Some (n, a) \<longleftrightarrow>
     (takeWhile word_char r = n \<and> n \<noteq> [] \<and> after_prefix '': '' (dropWhile word_char r) = Some a)"
  proof (cases "after_prefix '': '' (dropWhile word_char r)")
    case None
    then show ?thesis by (simp add: ACTION_PATTERN_match_def outer Let_def)
  next
    case (Some r')
    show ?thesis
      by (simp add: ACTION_PATTERN_match_def outer Some Let_def nn[OF Some]) blast
  qed
  also have "\<dots> \<longleftrightarrow> (r = n @ '': '' @ a \<and> n \<noteq> [] \<and> (\<forall>c\<in>set n. word_char c))"
    by (rule name_then_colon[of word_char, OF colon_not_word(1)])
  finally show ?thesis unfolding l by simp
qed

lemma first_map_filter:
  "(case List.map_filter f xs of [] \<Rightarrow> None | m # ms \<Rightarrow> Some m)
     = Option.bind (List.find (\<lambda>x. f x \<noteq> None) xs) f"
  by (induction xs) (auto split: option.splits)

text \<open>
  Claim C3, as stated, fails: the line \<open>Action: caf?: x\<close>, with the letter U+00E9 in the place of ?, is
  taken as an action by the parser, with that name, but its name does not match
  \<open>[A-Za-z0-9_]+\<close>, so the grammar of the claim does not accept the line.
\<close>

theorem non_ascii_name_parsed_as_action:
  "ACTION_PATTERN_match (''Action: caf'' @ [CHR 0xE9] @ '': x'') = Some (''caf'' @ [CHR 0xE9], ''x'')
   \<and> spec_action_line (''Action: caf'' @ [CHR 0xE9] @ '': x'') = None"
  by (simp add: ACTION_PATTERN_match_def spec_action_line_def word_char_def ascii_word_def code_def)

text \<open>
  Claim C3, amended: the response is split into lines, and a line is an action if and only
  if it is the marker \<open>Action: \<close>, a non-empty name of word characters in the sense of
  \<open>\w\<close> (letters, digits and the underscore, the non-ASCII letters and digits included),
  a colon and a space, and the rest of the line as the argument. With no such line no
  action is reported; otherwise the name and argument of the first such line are used and
  the other lines are ignored.
\<close>

theorem response_parser_first_match:
  "(\<forall>l \<in> set (split (CHR 0x0A) result). \<forall>n a.
       ACTION_PATTERN_match l = Some (n, a)
         \<longleftrightarrow> l = ''Action: '' @ n @ '': '' @ a \<and> n \<noteq> [] \<and> (\<forall>c\<in>set n. word_char c))
   \<and> (case actions result of [] \<Rightarrow> None | m # ms \<Rightarrow> Some m)
       = Option.bind (List.find (\<lambda>l. ACTION_PATTERN_match l \<noteq> None) (split (CHR 0x0A) result))
           ACTION_PATTERN_match"
  using match_line_iff[OF split_no_sep] by (simp add: actions_def first_map_filter)

text \<open>The theorem on a response of three lines, two of them actions: the first action is used.\<close>

theorem response_parser_first_match_witness:
  "ACTION_PATTERN_match ''Action: f_1: x y'' = Some (''f_1'', ''x y'')
   \<and> (case actions ''Hi\<newline>Action: f_1: x y\<newline>Action: g: z'' of [] \<Rightarrow> None | m # ms \<Rightarrow> Some m)
      = Some (''f_1'', ''x y'')"
proof -
  have sp: "split (CHR 0x0A) ''Hi\<newline>Action: f_1: x y\<newline>Action: g: z''
              = [''Hi'', ''Action: f_1: x y'', ''Action: g: z'']"
    by simp
  have w: "\<forall>c\<in>set ''f_1''. word_char c"
    by (simp add: word_char_def ascii_word_def code_def)
  note p = response_parser_first_match[of "''Hi\<newline>Action: f_1: x y\<newline>Action: g: z''", unfolded sp]
  have m: "ACTION_PATTERN_match ''Action: f_1: x y'' = Some (''f_1'', ''x y'')"
    using p[THEN conjunct1] w by simp
  have "ACTION_PATTERN_match ''Hi'' = None"
    by (simp add: ACTION_PATTERN_match_def)
  with m p[THEN conjunct2] show ?thesis by simp
qed

section \<open>Splitting and stripping\<close>

lemma split_no_sep_id: "sep \<notin> set s \<Longrightarrow> split sep s = [s]"
  by (induction s) auto

lemma split_append: "sep \<notin> set a \<Longrightarrow> split sep (a @ sep # b) = a # split sep b"
  by (induction a) auto

lemma split_two:
  "CHR '','' \<notin> set a \<Longrightarrow> CHR '','' \<notin> set b \<Longrightarrow> split (CHR '','') (a @ CHR '','' # b) = [a, b]"
  by (simp add: split_append split_no_sep_id)

lemma split_three:
  "CHR '','' \<notin> set a \<Longrightarrow> CHR '','' \<notin> set b \<Longrightarrow> CHR '','' \<notin> set c
     \<Longrightarrow> split (CHR '','') (a @ CHR '','' # b @ CHR '','' # c) = [a, b, c]"
  by (simp add: split_append split_no_sep_id)

lemma length_split: "length (split sep s) = Suc (length (filter (\<lambda>c. c = sep) s))"
  by (induction s) (auto split: list.splits simp: split_not_empty)

section \<open>Evaluation of the float model on concrete values\<close>

text \<open>
  The definitions are evaluated by rewriting. The facts below are the values of the parsing,
  arithmetic and formatting steps on the numbers that the examples use.
\<close>

lemmas round_defs = round_double_def round_at_def exponent_of_def pick_exponent_def pack_def
  mul_pow_def div_pow_def round_half_even_def
lemmas parse_defs = float_def parse_number_def take_sign_def parse_exponent_def decimal_value_def
  decimal_scaled_def is_digit_def float_space_def code_def ascii_lower_def Let_def
lemmas repr_defs = repr_fraction_def repr_scaled_def repr_digits_def repr_finite_def strip_zeros_def
  decimal_exponent_def candidate_def candidate_of_def pick_candidate_def reads_back_def
  sign_str_def

lemma digit_char_simps:
  "digit_char 0 = CHR ''0''" "digit_char (Suc 0) = CHR ''1''" "digit_char 2 = CHR ''2''"
  "digit_char 3 = CHR ''3''" "digit_char 4 = CHR ''4''" "digit_char 5 = CHR ''5''"
  "digit_char 6 = CHR ''6''" "digit_char 7 = CHR ''7''" "digit_char 8 = CHR ''8''"
  "digit_char 9 = CHR ''9''"
  unfolding digit_char_def by code_simp+

lemmas sum_defs = sum_at_def finish_sum_def signed_def round_dyadic_def
lemmas format_defs = hundredths_def sign_str_def digit_char_simps mul_pow_def div_pow_def
  round_half_even_def str_nat.simps
lemmas eval_defs = py_eval_def int_literal_def true_divide_def is_digit_def code_def Let_def

lemma dropWhile_hd: "xs \<noteq> [] \<Longrightarrow> \<not> P (hd xs) \<Longrightarrow> dropWhile P xs = xs"
  by (cases xs) auto

lemma strip_id:
  assumes "s \<noteq> []" "\<not> isspace (hd s)" "\<not> isspace (last s)"
  shows "strip s = s"
proof -
  have 1: "dropWhile isspace s = s" using assms by (simp add: dropWhile_hd)
  have "dropWhile isspace (rev s) = rev s"
    using assms by (intro dropWhile_hd) (simp_all add: hd_rev)
  with 1 show ?thesis by (simp add: strip_def)
qed

lemma float_5: "float ''5'' = Some (Finite False 5629499534213120 (- 50))"
  by (simp add: parse_defs round_defs bitlen.simps)
lemma float_20: "float ''20'' = Some (Finite False 5629499534213120 (- 48))"
  by (simp add: parse_defs round_defs bitlen.simps)
lemma float_32: "float ''32'' = Some (Finite False 4503599627370496 (- 47))"
  by (simp add: parse_defs round_defs bitlen.simps)
lemma float_1: "float ''1'' = Some (Finite False 4503599627370496 (- 52))"
  by (simp add: parse_defs round_defs bitlen.simps)
lemma float_0: "float ''0'' = Some (Finite False 0 0)"
  by (simp add: parse_defs round_defs bitlen.simps)
lemma float_rate: "float ''3.28084'' = Some (Finite False 7387794900731109 (- 51))"
  by (simp add: parse_defs round_defs bitlen.simps)
lemma float_number: "float ''number'' = None"
  by (simp add: parse_defs)

lemma eval_9_5: "py_eval ''9/5'' = Returns (PyFloat (Finite False 8106479329266893 (- 52)))"
  by (simp add: eval_defs round_defs bitlen.simps)
lemma eval_5_5: "py_eval ''5/5'' = Returns (PyFloat (Finite False 4503599627370496 (- 52)))"
  by (simp add: eval_defs round_defs bitlen.simps)
lemma eval_1_0: "py_eval ''1/0'' = Raises ZeroDivisionError"
  by (simp add: eval_defs)
lemma eval_2_pow_3: "py_eval ''2**3'' = Returns (PyInt 8)"
  by (simp add: eval_defs)
lemma eval_empty: "py_eval [] = Raises SyntaxError"
  by (simp add: eval_defs)
lemma int_to_float_8: "int_to_float 8 = Returns (Finite False 4503599627370496 (- 49))"
  by (simp add: int_to_float_def round_defs bitlen.simps)
lemma int_to_float_5: "int_to_float 5 = Returns (Finite False 5629499534213120 (- 50))"
  by (simp add: int_to_float_def round_defs bitlen.simps)

lemma mul_5_rate:
  "float_mul (Finite False 5629499534213120 (- 50)) (Finite False 7387794900731109 (- 51))
     = Finite False 4617371812956943 (- 48)"
  by (simp add: round_dyadic_def round_defs bitlen.simps)
lemma mul_5_5:
  "float_mul (Finite False 5629499534213120 (- 50)) (Finite False 5629499534213120 (- 50))
     = Finite False 7036874417766400 (- 48)"
  by (simp add: round_dyadic_def round_defs bitlen.simps)
lemma mul_5_1:
  "float_mul (Finite False 5629499534213120 (- 50)) (Finite False 4503599627370496 (- 52))
     = Finite False 5629499534213120 (- 50)"
  by (simp add: round_dyadic_def round_defs bitlen.simps)
lemma mul_20_9_5:
  "float_mul (Finite False 5629499534213120 (- 48)) (Finite False 8106479329266893 (- 52))
     = Finite False 5066549580791808 (- 47)"
  by (simp add: round_dyadic_def round_defs bitlen.simps)
lemma mul_1_8:
  "float_mul (Finite False 4503599627370496 (- 52)) (Finite False 4503599627370496 (- 49))
     = Finite False 4503599627370496 (- 49)"
  by (simp add: round_dyadic_def round_defs bitlen.simps)

lemma add_36_32:
  "float_add (Finite False 5066549580791808 (- 47)) (Finite False 4503599627370496 (- 47))
     = Finite False 4785074604081152 (- 46)"
  by (simp add: sum_defs round_defs bitlen.simps)
lemma add_8_0:
  "float_add (Finite False 4503599627370496 (- 49)) (Finite False 0 0)
     = Finite False 4503599627370496 (- 49)"
  by (simp add: sum_defs round_defs bitlen.simps)
lemma add_5_5:
  "float_add (Finite False 5629499534213120 (- 50)) (Finite False 5629499534213120 (- 50))
     = Finite False 5629499534213120 (- 49)"
  by (simp add: sum_defs round_defs bitlen.simps)
lemma add_25_5:
  "float_add (Finite False 7036874417766400 (- 48)) (Finite False 5629499534213120 (- 50))
     = Finite False 8444249301319680 (- 48)"
  by (simp add: sum_defs round_defs bitlen.simps)

lemma format_16_40: "format_2f (Finite False 4617371812956943 (- 48)) = ''16.40''"
  by (simp add: format_defs)
lemma format_25: "format_2f (Finite False 7036874417766400 (- 48)) = ''25.00''"
  by (simp add: format_defs)
lemma format_68: "format_2f (Finite False 4785074604081152 (- 46)) = ''68.00''"
  by (simp add: format_defs)
lemma format_8: "format_2f (Finite False 4503599627370496 (- 49)) = ''8.00''"
  by (simp add: format_defs)
lemma format_10: "format_2f (Finite False 5629499534213120 (- 49)) = ''10.00''"
  by (simp add: format_defs)
lemma format_30: "format_2f (Finite False 8444249301319680 (- 48)) = ''30.00''"
  by (simp add: format_defs)

lemma repr_5: "repr (Finite False 5629499534213120 (- 50)) = ''5.0''"
  by (simp add: repr_defs round_defs bitlen.simps str_nat.simps digit_char_simps upt_rec)
lemma repr_20: "repr (Finite False 5629499534213120 (- 48)) = ''20.0''"
  by (simp add: repr_defs round_defs bitlen.simps str_nat.simps digit_char_simps upt_rec)
lemma repr_1: "repr (Finite False 4503599627370496 (- 52)) = ''1.0''"
  by (simp add: repr_defs round_defs bitlen.simps str_nat.simps digit_char_simps upt_rec)

lemma strip_simple:
  "strip ''5'' = ''5''" "strip ''20'' = ''20''" "strip ''32'' = ''32''" "strip ''1'' = ''1''"
  "strip ''0'' = ''0''" "strip ''9/5'' = ''9/5''" "strip ''5/5'' = ''5/5''" "strip ''1/0'' = ''1/0''"
  "strip ''2**3'' = ''2**3''" "strip ''number'' = ''number''" "strip '' 5'' = ''5''"
  "strip ''5**1'' = ''5**1''" "strip [] = []"
  by (simp_all add: strip_def isspace_def code_def)

section \<open>Properties of \<open>apply_conversion\<close>\<close>

lemma digit_not_comma: "list_all is_digit a \<Longrightarrow> CHR '','' \<notin> set a"
  by (induction a) (auto simp: is_digit_def code_def)

lemma digit_not_space: "is_digit c \<Longrightarrow> \<not> isspace c"
  by (auto simp: is_digit_def isspace_def)

lemma takeWhile_digits:
  "list_all is_digit a \<Longrightarrow> \<not> is_digit c \<Longrightarrow> takeWhile is_digit (a @ c # r) = a"
  "list_all is_digit a \<Longrightarrow> \<not> is_digit c \<Longrightarrow> dropWhile is_digit (a @ c # r) = c # r"
  by (induction a) auto

lemma py_eval_power:
  assumes "list_all is_digit a" "a \<noteq> []" "list_all is_digit b" "b \<noteq> []"
  shows "py_eval (a @ ''**'' @ b)
     = and_then (int_literal a) (\<lambda>x. and_then (int_literal b) (\<lambda>y. Returns (PyInt (x ^ nat y))))"
proof -
  have s: "\<not> is_digit (CHR ''*'')" by (simp add: is_digit_def code_def)
  show ?thesis using assms
    by (simp add: py_eval_def takeWhile_digits[OF assms(1) s] Let_def)
qed

lemma py_eval_divide:
  assumes "list_all is_digit a" "a \<noteq> []" "list_all is_digit b" "b \<noteq> []"
  shows "py_eval (a @ ''/'' @ b)
     = and_then (int_literal a) (\<lambda>x. and_then (int_literal b) (\<lambda>y. true_divide x y))"
proof -
  have s: "\<not> is_digit (CHR ''/'')" by (simp add: is_digit_def code_def)
  show ?thesis using assms
    by (simp add: py_eval_def takeWhile_digits[OF assms(1) s] Let_def)
qed

lemma strip_power:
  assumes "list_all is_digit a" "a \<noteq> []" "list_all is_digit b" "b \<noteq> []"
  shows "strip (a @ ''**'' @ b) = a @ ''**'' @ b"
proof (rule strip_id)
  show "a @ ''**'' @ b \<noteq> []" using assms by simp
  have "is_digit (hd a)" using assms by (cases a) auto
  then show "\<not> isspace (hd (a @ ''**'' @ b))" using assms by (simp add: digit_not_space)
  have "is_digit (last b)" using assms by (cases b rule: rev_cases) auto
  then show "\<not> isspace (last (a @ ''**'' @ b))" using assms by (simp add: digit_not_space)
qed

lemma three_fields:
  assumes "CHR '','' \<notin> set m" "CHR '','' \<notin> set off_str" "CHR '','' \<notin> set v"
    and "float (strip v) = Some num"
  shows "apply_conversion (m @ '','' @ off_str @ '','' @ v)
     = (case py_eval (strip m) of
          Raises (ValueError msg) \<Rightarrow> Returns ''Error: Please provide valid numbers''
        | Raises SyntaxError \<Rightarrow> Returns ''Error: Invalid conversion rate format''
        | Raises e \<Rightarrow> Raises e
        | Unmodelled \<Rightarrow> Unmodelled
        | Returns mv \<Rightarrow>
            (case float (strip off_str) of
               None \<Rightarrow> Returns ''Error: Please provide valid numbers''
             | Some off \<Rightarrow>
                 and_then (multiply num mv) (\<lambda>product.
                   Returns (repr num @ [CHR 0xB0] @ ''C = '' @ format_2f (float_add product off)
                              @ [CHR 0xB0] @ ''F''))))"
  using assms
  by (simp add: apply_conversion_def split_three Let_def
           del: repr.simps float_mul.simps format_2f.simps float_add.simps
           split: outcome.splits exn.splits option.splits)

lemma two_fields:
  assumes "CHR '','' \<notin> set rate_str" "CHR '','' \<notin> set value_str"
    and "float (strip value_str) = Some num" "float rate_str = Some conversion_rate"
  shows "apply_conversion (rate_str @ '','' @ value_str)
     = Returns (repr num @ '' ''
         @ (if rate_str = ''3.28084'' then ''meters'' else if rate_str = ''0.621371'' then ''kilometers''
            else if rate_str = ''2.20462'' then ''kilograms'' else ''units'')
         @ '' = '' @ format_2f (float_mul num conversion_rate) @ '' ''
         @ (if rate_str = ''3.28084'' then ''feet'' else if rate_str = ''0.621371'' then ''miles''
            else if rate_str = ''2.20462'' then ''pounds'' else ''units''))"
  using assms by (simp add: apply_conversion_def split_two unit_map_def del: repr.simps float_mul.simps format_2f.simps)

text \<open>
  Claim C5: \<open>apply_conversion("3.28084,5")\<close> returns exactly \<open>5.0 meters = 16.40 feet\<close>;
  and for every argument of two fields, a rate and a value that \<open>float\<close> accepts, the
  result is the value, the source unit, the product of value and rate formatted to two
  decimals, and the target unit, the units being those of the reverse table for the three
  rate literals it holds and \<open>units\<close> for every other rate literal.
\<close>

theorem apply_conversion_two_fields:
  "apply_conversion ''3.28084,5'' = Returns ''5.0 meters = 16.40 feet''
   \<and> (\<forall>rate_str value_str num conversion_rate.
         CHR '','' \<notin> set rate_str \<and> CHR '','' \<notin> set value_str
         \<and> float (strip value_str) = Some num \<and> float rate_str = Some conversion_rate
         \<longrightarrow> apply_conversion (rate_str @ '','' @ value_str)
             = Returns (repr num @ '' ''
                 @ (if rate_str = ''3.28084'' then ''meters''
                    else if rate_str = ''0.621371'' then ''kilometers''
                    else if rate_str = ''2.20462'' then ''kilograms'' else ''units'')
                 @ '' = '' @ format_2f (float_mul num conversion_rate) @ '' ''
                 @ (if rate_str = ''3.28084'' then ''feet''
                    else if rate_str = ''0.621371'' then ''miles''
                    else if rate_str = ''2.20462'' then ''pounds'' else ''units'')))"
proof (intro conjI allI impI)
  have "apply_conversion (''3.28084'' @ '','' @ ''5'') = Returns ''5.0 meters = 16.40 feet''"
    by (subst two_fields[where num = "Finite False 5629499534213120 (- 50)"
                           and conversion_rate = "Finite False 7387794900731109 (- 51)"])
       (simp_all add: strip_simple float_5 float_rate mul_5_rate format_16_40 repr_5
                 del: repr.simps float_mul.simps format_2f.simps)
  then show "apply_conversion ''3.28084,5'' = Returns ''5.0 meters = 16.40 feet''" by simp
next
  fix rate_str value_str num conversion_rate
  assume "CHR '','' \<notin> set rate_str \<and> CHR '','' \<notin> set value_str
         \<and> float (strip value_str) = Some num \<and> float rate_str = Some conversion_rate"
  then show "apply_conversion (rate_str @ '','' @ value_str)
             = Returns (repr num @ '' ''
                 @ (if rate_str = ''3.28084'' then ''meters''
                    else if rate_str = ''0.621371'' then ''kilometers''
                    else if rate_str = ''2.20462'' then ''kilograms'' else ''units'')
                 @ '' = '' @ format_2f (float_mul num conversion_rate) @ '' ''
                 @ (if rate_str = ''3.28084'' then ''feet''
                    else if rate_str = ''0.621371'' then ''miles''
                    else if rate_str = ''2.20462'' then ''pounds'' else ''units''))"
    by (intro two_fields) simp_all
qed

text \<open>The theorem on the argument \<open>5, 5\<close>: a rate outside the table, and a value with a space to strip.\<close>

theorem apply_conversion_two_fields_witness:
  "CHR '','' \<notin> set ''5'' \<and> CHR '','' \<notin> set '' 5''
   \<and> float (strip '' 5'') = Some (Finite False 5629499534213120 (- 50))
   \<and> float ''5'' = Some (Finite False 5629499534213120 (- 50))
   \<and> apply_conversion ''5, 5'' = Returns ''5.0 units = 25.00 units''"
proof -
  have h: "CHR '','' \<notin> set ''5'' \<and> CHR '','' \<notin> set '' 5''
     \<and> float (strip '' 5'') = Some (Finite False 5629499534213120 (- 50))
     \<and> float ''5'' = Some (Finite False 5629499534213120 (- 50))"
    by (simp add: strip_simple float_5)
  from apply_conversion_two_fields[THEN conjunct2, rule_format, OF h]
  have "apply_conversion (''5'' @ '','' @ '' 5'') = Returns ''5.0 units = 25.00 units''"
    by (simp add: mul_5_5 format_25 repr_5 del: repr.simps float_mul.simps format_2f.simps)
  with h show ?thesis by simp
qed

lemma three_fields_returns:
  assumes "CHR '','' \<notin> set m" "CHR '','' \<notin> set off_str" "CHR '','' \<notin> set v"
    and "float (strip v) = Some num" "py_eval (strip m) = Returns mv"
    and "float (strip off_str) = Some off" "multiply num mv = Returns product"
  shows "apply_conversion (m @ '','' @ off_str @ '','' @ v)
     = Returns (repr num @ [CHR 0xB0] @ ''C = '' @ format_2f (float_add product off)
                  @ [CHR 0xB0] @ ''F'')"
  unfolding three_fields[OF assms(1-4)] using assms(5-) by simp

lemma three_fields_syntax_error:
  assumes "CHR '','' \<notin> set m" "CHR '','' \<notin> set off_str" "CHR '','' \<notin> set v"
    and "float (strip v) = Some num" "py_eval (strip m) = Raises SyntaxError"
  shows "apply_conversion (m @ '','' @ off_str @ '','' @ v)
     = Returns ''Error: Invalid conversion rate format''"
  unfolding three_fields[OF assms(1-4)] using assms(5-) by simp

lemma three_fields_raises:
  assumes "CHR '','' \<notin> set m" "CHR '','' \<notin> set off_str" "CHR '','' \<notin> set v"
    and "float (strip v) = Some num" "py_eval (strip m) = Raises ZeroDivisionError"
  shows "apply_conversion (m @ '','' @ off_str @ '','' @ v) = Raises ZeroDivisionError"
  unfolding three_fields[OF assms(1-4)] using assms(5-) by simp

text \<open>
  Claim C6: \<open>apply_conversion("9/5,32,20")\<close> returns exactly the string 20.0 degrees C =
  68.00 degrees F, the degree sign being U+00B0. The multiplier \<open>9/5\<close> is evaluated as
  a division, to the double nearest to nine fifths; \<open>float\<close> does not accept it as a
  literal. For every argument of three fields whose value and offset \<open>float\<close> accepts
  and whose multiplier evaluates to a number, the result is the value times the
  multiplier plus the offset, formatted to two decimals in that output shape.
\<close>

theorem apply_conversion_three_fields:
  "apply_conversion ''9/5,32,20''
     = Returns (''20.0'' @ [CHR 0xB0] @ ''C = 68.00'' @ [CHR 0xB0] @ ''F'')
   \<and> py_eval ''9/5'' = Returns (PyFloat (round_double False 9 5))
   \<and> float ''9/5'' = None
   \<and> (\<forall>m off_str v num mv off product.
         CHR '','' \<notin> set m \<and> CHR '','' \<notin> set off_str \<and> CHR '','' \<notin> set v
         \<and> float (strip v) = Some num \<and> py_eval (strip m) = Returns mv
         \<and> float (strip off_str) = Some off \<and> multiply num mv = Returns product
         \<longrightarrow> apply_conversion (m @ '','' @ off_str @ '','' @ v)
             = Returns (repr num @ [CHR 0xB0] @ ''C = '' @ format_2f (float_add product off)
                          @ [CHR 0xB0] @ ''F''))"
proof (intro conjI allI impI)
  have "apply_conversion (''9/5'' @ '','' @ ''32'' @ '','' @ ''20'')
     = Returns (repr (Finite False 5629499534213120 (- 48)) @ [CHR 0xB0] @ ''C = ''
         @ format_2f (float_add (Finite False 5066549580791808 (- 47))
                                (Finite False 4503599627370496 (- 47)))
         @ [CHR 0xB0] @ ''F'')"
    by (rule three_fields_returns[where mv = "PyFloat (Finite False 8106479329266893 (- 52))"])
       (simp_all add: strip_simple float_20 float_32 eval_9_5 mul_20_9_5 del: float_mul.simps)
  then show "apply_conversion ''9/5,32,20''
     = Returns (''20.0'' @ [CHR 0xB0] @ ''C = 68.00'' @ [CHR 0xB0] @ ''F'')"
    by (simp add: add_36_32 format_68 repr_20 del: repr.simps float_add.simps format_2f.simps)
  show "py_eval ''9/5'' = Returns (PyFloat (round_double False 9 5))"
    by (simp add: eval_defs round_defs bitlen.simps)
  show "float ''9/5'' = None"
    by (simp add: parse_defs)
next
  fix m off_str v num mv off product
  assume "CHR '','' \<notin> set m \<and> CHR '','' \<notin> set off_str \<and> CHR '','' \<notin> set v
         \<and> float (strip v) = Some num \<and> py_eval (strip m) = Returns mv
         \<and> float (strip off_str) = Some off \<and> multiply num mv = Returns product"
  then show "apply_conversion (m @ '','' @ off_str @ '','' @ v)
             = Returns (repr num @ [CHR 0xB0] @ ''C = '' @ format_2f (float_add product off)
                          @ [CHR 0xB0] @ ''F'')"
    by (elim conjE) (rule three_fields_returns, assumption+)
qed

text \<open>The theorem on the argument \<open>5/5,5, 5\<close>: five times one plus five.\<close>

theorem apply_conversion_three_fields_witness:
  "CHR '','' \<notin> set ''5/5'' \<and> CHR '','' \<notin> set ''5'' \<and> CHR '','' \<notin> set '' 5''
   \<and> float (strip '' 5'') = Some (Finite False 5629499534213120 (- 50))
   \<and> py_eval (strip ''5/5'') = Returns (PyFloat (Finite False 4503599627370496 (- 52)))
   \<and> float (strip ''5'') = Some (Finite False 5629499534213120 (- 50))
   \<and> multiply (Finite False 5629499534213120 (- 50)) (PyFloat (Finite False 4503599627370496 (- 52)))
       = Returns (Finite False 5629499534213120 (- 50))
   \<and> apply_conversion ''5/5,5, 5'' = Returns (''5.0'' @ [CHR 0xB0] @ ''C = 10.00'' @ [CHR 0xB0] @ ''F'')"
proof -
  have h: "CHR '','' \<notin> set ''5/5'' \<and> CHR '','' \<notin> set ''5'' \<and> CHR '','' \<notin> set '' 5''
   \<and> float (strip '' 5'') = Some (Finite False 5629499534213120 (- 50))
   \<and> py_eval (strip ''5/5'') = Returns (PyFloat (Finite False 4503599627370496 (- 52)))
   \<and> float (strip ''5'') = Some (Finite False 5629499534213120 (- 50))
   \<and> multiply (Finite False 5629499534213120 (- 50)) (PyFloat (Finite False 4503599627370496 (- 52)))
       = Returns (Finite False 5629499534213120 (- 50))"
    by (simp add: strip_simple float_5 eval_5_5 mul_5_1 del: float_mul.simps)
  from apply_conversion_three_fields[THEN conjunct2, THEN conjunct2, THEN conjunct2, rule_format, OF h]
  have "apply_conversion (''5/5'' @ '','' @ ''5'' @ '','' @ '' 5'')
      = Returns (''5.0'' @ [CHR 0xB0] @ ''C = 10.00'' @ [CHR 0xB0] @ ''F'')"
    by (simp add: add_5_5 format_10 repr_5 del: repr.simps float_add.simps format_2f.simps)
  with h show ?thesis by simp
qed

text \<open>
  Claim C7, as stated, fails: the multiplier \<open>2**3\<close> is not rejected. It is computed, as
  8, and the conversion of the value 1 with offset 0 returns 8.00.
\<close>

theorem power_multiplier_computed:
  "apply_conversion ''2**3,0,1'' = Returns (''1.0'' @ [CHR 0xB0] @ ''C = 8.00'' @ [CHR 0xB0] @ ''F'')"
proof -
  have "apply_conversion (''2**3'' @ '','' @ ''0'' @ '','' @ ''1'')
     = Returns (repr (Finite False 4503599627370496 (- 52)) @ [CHR 0xB0] @ ''C = ''
         @ format_2f (float_add (Finite False 4503599627370496 (- 49)) (Finite False 0 0))
         @ [CHR 0xB0] @ ''F'')"
    by (rule three_fields_returns[where mv = "PyInt 8"])
       (simp_all add: strip_simple float_1 float_0 eval_2_pow_3 int_to_float_8 mul_1_8
                 del: float_mul.simps)
  then show ?thesis
    by (simp add: add_8_0 format_8 repr_1 del: repr.simps float_add.simps format_2f.simps)
qed

text \<open>
  Claim C7, amended: in the 3-field form the multiplier field is evaluated by \<open>eval\<close>,
  which is not limited to the pattern of two integers and a slash: a multiplier of two
  integer literals joined by \<open>**\<close> is computed as a power and the conversion is carried
  out with it, for every such pair of literals. The error observation
  \<open>Error: Invalid conversion rate format\<close> is what a multiplier yields on which \<open>eval\<close>
  raises a syntax error.
\<close>

theorem multiplier_evaluated_by_eval:
  "(\<forall>a b x y off_str v num off product.
      list_all is_digit a \<and> a \<noteq> [] \<and> list_all is_digit b \<and> b \<noteq> []
      \<and> int_literal a = Returns x \<and> int_literal b = Returns y
      \<and> CHR '','' \<notin> set off_str \<and> CHR '','' \<notin> set v
      \<and> float (strip v) = Some num \<and> float (strip off_str) = Some off
      \<and> multiply num (PyInt (x ^ nat y)) = Returns product
      \<longrightarrow> apply_conversion (a @ ''**'' @ b @ '','' @ off_str @ '','' @ v)
          = Returns (repr num @ [CHR 0xB0] @ ''C = '' @ format_2f (float_add product off)
                       @ [CHR 0xB0] @ ''F''))
   \<and> (\<forall>m off_str v num.
        CHR '','' \<notin> set m \<and> CHR '','' \<notin> set off_str \<and> CHR '','' \<notin> set v
        \<and> float (strip v) = Some num \<and> py_eval (strip m) = Raises SyntaxError
        \<longrightarrow> apply_conversion (m @ '','' @ off_str @ '','' @ v)
            = Returns ''Error: Invalid conversion rate format'')"
proof (intro conjI allI impI)
  fix a b x y off_str v num off product
  assume h: "list_all is_digit a \<and> a \<noteq> [] \<and> list_all is_digit b \<and> b \<noteq> []
      \<and> int_literal a = Returns x \<and> int_literal b = Returns y
      \<and> CHR '','' \<notin> set off_str \<and> CHR '','' \<notin> set v
      \<and> float (strip v) = Some num \<and> float (strip off_str) = Some off
      \<and> multiply num (PyInt (x ^ nat y)) = Returns product"
  then have d: "list_all is_digit a" "a \<noteq> []" "list_all is_digit b" "b \<noteq> []"
    and l: "int_literal a = Returns x" "int_literal b = Returns y"
    and f: "CHR '','' \<notin> set off_str" "CHR '','' \<notin> set v"
      "float (strip v) = Some num" "float (strip off_str) = Some off"
    and p: "multiply num (PyInt (x ^ nat y)) = Returns product"
    by blast+
  have c: "CHR '','' \<notin> set (a @ ''**'' @ b)"
    using digit_not_comma[OF d(1)] digit_not_comma[OF d(3)] by simp
  have e: "py_eval (strip (a @ ''**'' @ b)) = Returns (PyInt (x ^ nat y))"
    unfolding strip_power[OF d] py_eval_power[OF d] l by simp
  have "apply_conversion ((a @ ''**'' @ b) @ '','' @ off_str @ '','' @ v)
          = Returns (repr num @ [CHR 0xB0] @ ''C = '' @ format_2f (float_add product off)
                       @ [CHR 0xB0] @ ''F'')"
    by (rule three_fields_returns[OF c f(1) f(2) f(3) e f(4) p])
  then show "apply_conversion (a @ ''**'' @ b @ '','' @ off_str @ '','' @ v)
          = Returns (repr num @ [CHR 0xB0] @ ''C = '' @ format_2f (float_add product off)
                       @ [CHR 0xB0] @ ''F'')"
    by (simp only: append_assoc)
next
  fix m off_str v num
  assume "CHR '','' \<notin> set m \<and> CHR '','' \<notin> set off_str \<and> CHR '','' \<notin> set v
        \<and> float (strip v) = Some num \<and> py_eval (strip m) = Raises SyntaxError"
  then show "apply_conversion (m @ '','' @ off_str @ '','' @ v)
            = Returns ''Error: Invalid conversion rate format''"
    by (elim conjE) (rule three_fields_syntax_error, assumption+)
qed

text \<open>The theorem on the multiplier \<open>5**1\<close>, and on an empty multiplier, which is a syntax error.\<close>

theorem multiplier_evaluated_by_eval_witness:
  "apply_conversion ''5**1,5,5'' = Returns (''5.0'' @ [CHR 0xB0] @ ''C = 30.00'' @ [CHR 0xB0] @ ''F'')
   \<and> apply_conversion '',32,20'' = Returns ''Error: Invalid conversion rate format''"
proof -
  have h1: "list_all is_digit ''5'' \<and> ''5'' \<noteq> [] \<and> list_all is_digit ''1'' \<and> ''1'' \<noteq> []
      \<and> int_literal ''5'' = Returns 5 \<and> int_literal ''1'' = Returns 1
      \<and> CHR '','' \<notin> set ''5'' \<and> CHR '','' \<notin> set ''5''
      \<and> float (strip ''5'') = Some (Finite False 5629499534213120 (- 50))
      \<and> float (strip ''5'') = Some (Finite False 5629499534213120 (- 50))
      \<and> multiply (Finite False 5629499534213120 (- 50)) (PyInt (5 ^ nat 1))
          = Returns (Finite False 7036874417766400 (- 48))"
    by (simp add: is_digit_def code_def int_literal_def strip_simple float_5 int_to_float_5 mul_5_5
             del: float_mul.simps)
  have h2: "CHR '','' \<notin> set [] \<and> CHR '','' \<notin> set ''32'' \<and> CHR '','' \<notin> set ''20''
        \<and> float (strip ''20'') = Some (Finite False 5629499534213120 (- 48))
        \<and> py_eval (strip []) = Raises SyntaxError"
    by (simp add: strip_simple float_20 eval_empty)
  from multiplier_evaluated_by_eval[THEN conjunct1, rule_format, OF h1]
  have 1: "apply_conversion ''5**1,5,5''
      = Returns (''5.0'' @ [CHR 0xB0] @ ''C = 30.00'' @ [CHR 0xB0] @ ''F'')"
    by (simp add: add_25_5 format_30 repr_5 del: repr.simps float_add.simps format_2f.simps)
  from multiplier_evaluated_by_eval[THEN conjunct2, rule_format, OF h2]
  have "apply_conversion '',32,20'' = Returns ''Error: Invalid conversion rate format''"
    by simp
  with 1 show ?thesis by simp
qed

text \<open>
  Claim C1 against the code: the two arguments the claim names return error strings, but
  the argument \<open>1/0,32,20\<close>, whose multiplier field cannot be evaluated, makes
  \<open>apply_conversion\<close> raise \<open>ZeroDivisionError\<close>, which neither handler catches.
\<close>

theorem apply_conversion_division_by_zero_raises:
  "apply_conversion ''1/0,32,20'' = Raises ZeroDivisionError
   \<and> apply_conversion ''not,a,number'' = Returns ''Error: Please provide valid numbers''
   \<and> apply_conversion ''only_one_field'' = Returns ''Error: Invalid number of parameters''"
proof (intro conjI)
  have "apply_conversion (''1/0'' @ '','' @ ''32'' @ '','' @ ''20'') = Raises ZeroDivisionError"
    by (rule three_fields_raises) (simp_all add: strip_simple float_20 eval_1_0)
  then show "apply_conversion ''1/0,32,20'' = Raises ZeroDivisionError" by simp
  have "split (CHR '','') ''not,a,number'' = [''not'', ''a'', ''number'']" by simp
  then show "apply_conversion ''not,a,number'' = Returns ''Error: Please provide valid numbers''"
    by (simp add: apply_conversion_def strip_simple float_number)
  have "split (CHR '','') ''only_one_field'' = [''only_one_field'']" by simp
  then show "apply_conversion ''only_one_field'' = Returns ''Error: Invalid number of parameters''"
    by (simp add: apply_conversion_def)
qed

section \<open>Properties of the agent loop\<close>

lemma call_eq:
  "call llm p st =
     (llm (messages st @ [\<lparr>role = ''user'', content = p\<rparr>]),
      st\<lparr>messages := messages st @ [\<lparr>role = ''user'', content = p\<rparr>,
          \<lparr>role = ''assistant'', content = llm (messages st @ [\<lparr>role = ''user'', content = p\<rparr>])\<rparr>]\<rparr>)"
  by (simp add: call_def execute_def add_message_def Let_def)

lemma multiply_cases: "(\<exists>x. multiply num mv = Returns x) \<or> multiply num mv = Raises OverflowError"
  by (cases mv) (auto simp: int_to_float_def split: pyfloat.splits)

lemma apply_conversion_no_value_error: "apply_conversion r \<noteq> Raises (ValueError m)"
proof -
  have a: "and_then (multiply num mv) (\<lambda>product. Returns (f product)) \<noteq> Raises (ValueError m)"
    for num mv and f :: "pyfloat \<Rightarrow> string"
    using multiply_cases[of num mv] by auto
  show ?thesis
    unfolding apply_conversion_def
    by (simp add: a Let_def split: list.splits option.splits outcome.splits exn.splits prod.splits
             del: repr.simps float_mul.simps format_2f.simps float_add.simps)
qed

lemma KNOWN_ACTIONS_dom:
  "KNOWN_ACTIONS a \<noteq> None \<longleftrightarrow> a = ''model_memory'' \<or> a = ''apply_conversion''"
  by (simp add: KNOWN_ACTIONS_def)

lemma handler_no_value_error: "KNOWN_ACTIONS a = Some h \<Longrightarrow> h i \<noteq> Raises (ValueError m)"
  by (auto simp: KNOWN_ACTIONS_def apply_conversion_no_value_error split: if_splits)


lemma turns_step:
  "turns llm (Suc n) p st evs =
     (let sent = messages st @ [\<lparr>role = ''user'', content = p\<rparr>];
          result = llm sent;
          st' = st\<lparr>messages := sent @ [\<lparr>role = ''assistant'', content = result\<rparr>]\<rparr>;
          evs' = evs @ [ModelCall sent]
      in case actions result of
           [] \<Rightarrow> (Returns (messages st'), evs')
         | (a, i) # others \<Rightarrow>
             (case KNOWN_ACTIONS a of
                None \<Rightarrow> (Raises (ValueError (''Unknown action: '' @ a @ '': '' @ i)), evs')
              | Some h \<Rightarrow>
                  (case h i of
                     Returns obs \<Rightarrow> turns llm n (''Observation: '' @ obs) st' (evs' @ [Dispatch a i])
                   | Raises e \<Rightarrow> (Raises e, evs' @ [Dispatch a i])
                   | Unmodelled \<Rightarrow> (Unmodelled, evs' @ [Dispatch a i]))))"
  by (simp add: call_eq add_message_def Let_def
           split: list.splits option.splits outcome.splits prod.splits)

declare turns.simps(2) [simp del]




lemma turns_value_error:
  "fst (turns llm n p st evs) = Raises (ValueError m) \<Longrightarrow>
     \<exists>a i. m = ''Unknown action: '' @ a @ '': '' @ i \<and> KNOWN_ACTIONS a = None"
proof (induction n arbitrary: p st evs)
  case 0
  then show ?case by simp
next
  case (Suc n)
  let ?sent = "messages st @ [\<lparr>role = ''user'', content = p\<rparr>]"
  show ?case
  proof (cases "actions (llm ?sent)")
    case Nil
    with Suc.prems show ?thesis by (simp add: turns_step Let_def)
  next
    case (Cons ai others)
    obtain a' i' where ai: "ai = (a', i')" by (cases ai)
    show ?thesis
    proof (cases "KNOWN_ACTIONS a'")
      case None
      with Suc.prems Cons ai have "m = ''Unknown action: '' @ a' @ '': '' @ i'"
        by (simp add: turns_step Let_def)
      with None show ?thesis by blast
    next
      case (Some h)
      show ?thesis
      proof (cases "h i'")
        case (Returns obs)
        with Suc.prems Cons ai Some have
          "fst (turns llm n (''Observation: '' @ obs)
                 (st\<lparr>messages := ?sent @ [\<lparr>role = ''assistant'', content = llm ?sent\<rparr>]\<rparr>)
                 ((evs @ [ModelCall ?sent]) @ [Dispatch a' i'])) = Raises (ValueError m)"
          by (simp add: turns_step Let_def)
        then show ?thesis by (rule Suc.IH)
      next
        case (Raises e)
        with Suc.prems Cons ai Some have "h i' = Raises (ValueError m)"
          by (simp add: turns_step Let_def)
        with handler_no_value_error[OF Some] show ?thesis by blast
      next
        case Unmodelled
        with Suc.prems Cons ai Some show ?thesis by (simp add: turns_step Let_def)
      qed
    qed
  qed
qed

lemma turns_exhausted:
  "turns llm n p st evs = (Returns msgs, evs') \<Longrightarrow> 0 < n \<Longrightarrow>
   actions (content (last msgs)) = (a, i) # rest \<Longrightarrow>
     role (last msgs) = ''assistant'' \<and> last evs' = Dispatch a i
     \<and> (\<exists>h obs. KNOWN_ACTIONS a = Some h \<and> h i = Returns obs)
     \<and> length (filter is_ModelCall evs') = length (filter is_ModelCall evs) + n
     \<and> length msgs = length (messages st) + 2 * n"
proof (induction n arbitrary: p st evs)
  case 0
  then show ?case by simp
next
  case (Suc n)
  let ?sent = "messages st @ [\<lparr>role = ''user'', content = p\<rparr>]"
  let ?st' = "st\<lparr>messages := ?sent @ [\<lparr>role = ''assistant'', content = llm ?sent\<rparr>]\<rparr>"
  show ?case
  proof (cases "actions (llm ?sent)")
    case Nil
    with Suc.prems show ?thesis by (auto simp: turns_step Let_def)
  next
    case (Cons ai others)
    obtain a' i' where ai: "ai = (a', i')" by (cases ai)
    show ?thesis
    proof (cases "KNOWN_ACTIONS a'")
      case None
      with Suc.prems Cons ai show ?thesis by (simp add: turns_step Let_def)
    next
      case (Some h)
      show ?thesis
      proof (cases "h i'")
        case (Returns obs)
        have eq: "turns llm (Suc n) p st evs
            = turns llm n (''Observation: '' @ obs) ?st' ((evs @ [ModelCall ?sent]) @ [Dispatch a' i'])"
          by (simp add: turns_step Let_def Cons ai Some Returns)
        show ?thesis
        proof (cases n)
          case 0
          with Suc.prems eq Cons ai Some Returns show ?thesis by auto
        next
          case (Suc k)
          with Suc.prems eq have
            "turns llm n (''Observation: '' @ obs) ?st' ((evs @ [ModelCall ?sent]) @ [Dispatch a' i'])
               = (Returns msgs, evs')" "0 < n"
            by simp_all
          from Suc.IH[OF this Suc.prems(3)] show ?thesis by simp
        qed
      next
        case (Raises e)
        with Suc.prems Cons ai Some show ?thesis by (simp add: turns_step Let_def)
      next
        case Unmodelled
        with Suc.prems Cons ai Some show ?thesis by (simp add: turns_step Let_def)
      qed
    qed
  qed
qed

lemma messages_create_agent:
  "messages create_agent = [\<lparr>role = ''system'', content = tutorial_prompt\<rparr>]"
  by (simp add: create_agent_def ReActAgent_def)


lemma actions_model_memory_x:
  "actions ''Action: model_memory: x'' = [(''model_memory'', ''x'')]"
  by (simp add: actions_def ACTION_PATTERN_match_def word_char_def ascii_word_def code_def)

lemma model_memory_x: "model_memory ''x'' = ''No conversion rate found for x''"
  by (simp add: model_memory_def rates_def lower_char_def code_def)

lemma known_model_memory:
  "KNOWN_ACTIONS ''model_memory'' = Some (\<lambda>unit. Returns (model_memory unit))"
  by (simp add: KNOWN_ACTIONS_def)


text \<open>
  Claim C4: in an iteration of the loop whose response holds an action, if the name is not
  a key of \<open>KNOWN_ACTIONS\<close> the loop ends there, with the unknown-action \<open>ValueError\<close>
  going to the caller, no handler dispatched and no further model call, whatever the number
  of iterations left. If the name is a key, the handler found under it is called with the
  parsed argument, and what the iteration does next is decided by the handler's outcome,
  which is never a \<open>ValueError\<close>. So a \<open>ValueError\<close> out of \<open>query\<close> is always the
  unknown-action error of a name outside the table, whose keys are \<open>model_memory\<close> and
  \<open>apply_conversion\<close>.
\<close>

theorem unknown_action_is_fatal:
  "(actions (llm (messages st @ [\<lparr>role = ''user'', content = p\<rparr>])) = (a, i) # rest
      \<and> KNOWN_ACTIONS a = None
    \<longrightarrow> turns llm (Suc n) p st evs
          = (Raises (ValueError (''Unknown action: '' @ a @ '': '' @ i)),
             evs @ [ModelCall (messages st @ [\<lparr>role = ''user'', content = p\<rparr>])]))
   \<and> (actions (llm (messages st @ [\<lparr>role = ''user'', content = p\<rparr>])) = (a, i) # rest
      \<and> KNOWN_ACTIONS a = Some h
    \<longrightarrow> (\<forall>m. h i \<noteq> Raises (ValueError m))
        \<and> turns llm (Suc n) p st evs
          = (case h i of
               Returns obs \<Rightarrow>
                 turns llm n (''Observation: '' @ obs) (snd (call llm p st))
                   (evs @ [ModelCall (messages st @ [\<lparr>role = ''user'', content = p\<rparr>]),
                           Dispatch a i])
             | Raises e \<Rightarrow>
                 (Raises e, evs @ [ModelCall (messages st @ [\<lparr>role = ''user'', content = p\<rparr>]),
                                   Dispatch a i])
             | Unmodelled \<Rightarrow>
                 (Unmodelled, evs @ [ModelCall (messages st @ [\<lparr>role = ''user'', content = p\<rparr>]),
                                     Dispatch a i])))
   \<and> (\<forall>m. fst (query llm question max_turns) = Raises (ValueError m)
         \<longrightarrow> (\<exists>a i. m = ''Unknown action: '' @ a @ '': '' @ i \<and> KNOWN_ACTIONS a = None))
   \<and> (KNOWN_ACTIONS a \<noteq> None \<longleftrightarrow> a = ''model_memory'' \<or> a = ''apply_conversion'')"
proof (intro conjI allI impI)
  assume "actions (llm (messages st @ [\<lparr>role = ''user'', content = p\<rparr>])) = (a, i) # rest
      \<and> KNOWN_ACTIONS a = None"
  then show "turns llm (Suc n) p st evs
          = (Raises (ValueError (''Unknown action: '' @ a @ '': '' @ i)),
             evs @ [ModelCall (messages st @ [\<lparr>role = ''user'', content = p\<rparr>])])"
    by (simp add: turns_step Let_def)
next
  fix m
  assume "actions (llm (messages st @ [\<lparr>role = ''user'', content = p\<rparr>])) = (a, i) # rest
      \<and> KNOWN_ACTIONS a = Some h"
  then show "h i \<noteq> Raises (ValueError m)"
    using handler_no_value_error by blast
next
  assume "actions (llm (messages st @ [\<lparr>role = ''user'', content = p\<rparr>])) = (a, i) # rest
      \<and> KNOWN_ACTIONS a = Some h"
  then show "turns llm (Suc n) p st evs
          = (case h i of
               Returns obs \<Rightarrow>
                 turns llm n (''Observation: '' @ obs) (snd (call llm p st))
                   (evs @ [ModelCall (messages st @ [\<lparr>role = ''user'', content = p\<rparr>]),
                           Dispatch a i])
             | Raises e \<Rightarrow>
                 (Raises e, evs @ [ModelCall (messages st @ [\<lparr>role = ''user'', content = p\<rparr>]),
                                   Dispatch a i])
             | Unmodelled \<Rightarrow>
                 (Unmodelled, evs @ [ModelCall (messages st @ [\<lparr>role = ''user'', content = p\<rparr>]),
                                     Dispatch a i]))"
    by (simp add: turns_step Let_def call_eq split: outcome.splits)
next
  fix m
  assume "fst (query llm question max_turns) = Raises (ValueError m)"
  then show "\<exists>a i. m = ''Unknown action: '' @ a @ '': '' @ i \<and> KNOWN_ACTIONS a = None"
    unfolding query_def by (rule turns_value_error)
next
  show "KNOWN_ACTIONS a \<noteq> None \<longleftrightarrow> a = ''model_memory'' \<or> a = ''apply_conversion''"
    by (rule KNOWN_ACTIONS_dom)
qed

lemma actions_lookup_x: "actions ''Action: lookup: x'' = [(''lookup'', ''x'')]"
  by (simp add: actions_def ACTION_PATTERN_match_def word_char_def ascii_word_def code_def)

lemma known_lookup: "KNOWN_ACTIONS ''lookup'' = None"
  by (simp add: KNOWN_ACTIONS_def)

text \<open>The theorem on one iteration from a fresh agent, for a response naming an action outside the table and for one naming \<open>model_memory\<close>.\<close>

theorem unknown_action_is_fatal_witness:
  "turns (\<lambda>ms. ''Action: lookup: x'') (Suc 0) ''q'' (ReActAgent ''s'') []
     = (Raises (ValueError ''Unknown action: lookup: x''),
        [ModelCall [\<lparr>role = ''system'', content = ''s''\<rparr>, \<lparr>role = ''user'', content = ''q''\<rparr>]])
   \<and> turns (\<lambda>ms. ''Action: model_memory: x'') (Suc 0) ''q'' (ReActAgent ''s'') []
     = (Returns [\<lparr>role = ''system'', content = ''s''\<rparr>, \<lparr>role = ''user'', content = ''q''\<rparr>,
                 \<lparr>role = ''assistant'', content = ''Action: model_memory: x''\<rparr>],
        [ModelCall [\<lparr>role = ''system'', content = ''s''\<rparr>, \<lparr>role = ''user'', content = ''q''\<rparr>],
         Dispatch ''model_memory'' ''x''])"
proof -
  have h1: "actions ((\<lambda>ms. ''Action: lookup: x'')
               (messages (ReActAgent ''s'') @ [\<lparr>role = ''user'', content = ''q''\<rparr>]))
             = (''lookup'', ''x'') # []
           \<and> KNOWN_ACTIONS ''lookup'' = None"
    by (simp add: actions_lookup_x known_lookup)
  have h2: "actions ((\<lambda>ms. ''Action: model_memory: x'')
               (messages (ReActAgent ''s'') @ [\<lparr>role = ''user'', content = ''q''\<rparr>]))
             = (''model_memory'', ''x'') # []
           \<and> KNOWN_ACTIONS ''model_memory'' = Some (\<lambda>unit. Returns (model_memory unit))"
    by (simp add: actions_model_memory_x known_model_memory)
  from unknown_action_is_fatal[where llm = "\<lambda>ms. ''Action: lookup: x''" and st = "ReActAgent ''s''"
         and p = "''q''" and a = "''lookup''" and i = "''x''" and rest = "[]" and n = 0
         and evs = "[]", THEN conjunct1, THEN mp, OF h1]
  have 1: "turns (\<lambda>ms. ''Action: lookup: x'') (Suc 0) ''q'' (ReActAgent ''s'') []
     = (Raises (ValueError ''Unknown action: lookup: x''),
        [ModelCall [\<lparr>role = ''system'', content = ''s''\<rparr>, \<lparr>role = ''user'', content = ''q''\<rparr>]])"
    by (simp add: ReActAgent_def)
  from unknown_action_is_fatal[where llm = "\<lambda>ms. ''Action: model_memory: x''"
         and st = "ReActAgent ''s''" and p = "''q''" and a = "''model_memory''" and i = "''x''"
         and rest = "[]" and n = 0 and evs = "[]"
         and h = "\<lambda>unit. Returns (model_memory unit)",
         THEN conjunct2, THEN conjunct1, THEN mp, OF h2, THEN conjunct2]
  have "turns (\<lambda>ms. ''Action: model_memory: x'') (Suc 0) ''q'' (ReActAgent ''s'') []
     = (Returns [\<lparr>role = ''system'', content = ''s''\<rparr>, \<lparr>role = ''user'', content = ''q''\<rparr>,
                 \<lparr>role = ''assistant'', content = ''Action: model_memory: x''\<rparr>],
        [ModelCall [\<lparr>role = ''system'', content = ''s''\<rparr>, \<lparr>role = ''user'', content = ''q''\<rparr>],
         Dispatch ''model_memory'' ''x''])"
    by (simp add: ReActAgent_def call_eq)
  with 1 show ?thesis by simp
qed

lemma state_after_step:
  "state_after llm (Suc n) p st evs =
     (let sent = messages st @ [\<lparr>role = ''user'', content = p\<rparr>];
          result = llm sent;
          st' = st\<lparr>messages := sent @ [\<lparr>role = ''assistant'', content = result\<rparr>]\<rparr>;
          evs' = evs @ [ModelCall sent]
      in case actions result of
           [] \<Rightarrow> None
         | (a, i) # others \<Rightarrow>
             (case KNOWN_ACTIONS a of
                None \<Rightarrow> None
              | Some h \<Rightarrow>
                  (case h i of
                     Returns obs \<Rightarrow> state_after llm n (''Observation: '' @ obs) st' (evs' @ [Dispatch a i])
                   | Raises e \<Rightarrow> None
                   | Unmodelled \<Rightarrow> None)))"
  by (simp add: call_eq add_message_def Let_def
           split: list.splits option.splits outcome.splits prod.splits)

declare state_after.simps(2) [simp del]

lemma turns_after:
  "state_after llm k p st evs = Some (p', st', evs')
     \<Longrightarrow> turns llm (k + m) p st evs = turns llm m p' st' evs'"
proof (induction k arbitrary: p st evs)
  case 0
  then show ?case by simp
next
  case (Suc k)
  let ?sent = "messages st @ [\<lparr>role = ''user'', content = p\<rparr>]"
  let ?st' = "st\<lparr>messages := ?sent @ [\<lparr>role = ''assistant'', content = llm ?sent\<rparr>]\<rparr>"
  from Suc.prems obtain a i others h obs where
    h: "actions (llm ?sent) = (a, i) # others" "KNOWN_ACTIONS a = Some h" "h i = Returns obs"
    and s: "state_after llm k (''Observation: '' @ obs) ?st' ((evs @ [ModelCall ?sent]) @ [Dispatch a i])
              = Some (p', st', evs')"
    by (auto simp: state_after_step Let_def split: list.splits option.splits outcome.splits)
  have "turns llm (Suc k + m) p st evs
      = turns llm (k + m) (''Observation: '' @ obs) ?st' ((evs @ [ModelCall ?sent]) @ [Dispatch a i])"
    by (simp add: turns_step Let_def h)
  also have "\<dots> = turns llm m p' st' evs'" by (rule Suc.IH[OF s])
  finally show ?case .
qed

lemma final_turn:
  assumes "actions (llm (messages st @ [\<lparr>role = ''user'', content = p\<rparr>])) = (a, i) # rest"
    and "KNOWN_ACTIONS a = Some h" "h i = Returns obs"
  shows "turns llm (Suc 0) p st evs
     = (Returns (messages st @ [\<lparr>role = ''user'', content = p\<rparr>,
          \<lparr>role = ''assistant'', content = llm (messages st @ [\<lparr>role = ''user'', content = p\<rparr>])\<rparr>]),
        evs @ [ModelCall (messages st @ [\<lparr>role = ''user'', content = p\<rparr>]), Dispatch a i])"
  using assms by (simp add: turns_step Let_def)

lemma last_turn_of_run:
  assumes "state_after llm n p st evs = Some (p', st', evs')"
    and "actions (llm (messages st' @ [\<lparr>role = ''user'', content = p'\<rparr>])) = (a, i) # rest"
    and "KNOWN_ACTIONS a = Some h" "h i = Returns obs"
  shows "turns llm (Suc n) p st evs
     = (Returns (messages st' @ [\<lparr>role = ''user'', content = p'\<rparr>,
          \<lparr>role = ''assistant'', content = llm (messages st' @ [\<lparr>role = ''user'', content = p'\<rparr>])\<rparr>]),
        evs' @ [ModelCall (messages st' @ [\<lparr>role = ''user'', content = p'\<rparr>]), Dispatch a i])"
proof -
  have "turns llm (n + Suc 0) p st evs = turns llm (Suc 0) p' st' evs'"
    by (rule turns_after[OF assms(1)])
  then show ?thesis
    using final_turn[where llm = llm and st = st' and p = p' and evs = evs', OF assms(2-4)] by simp
qed


text \<open>
  Claim C10: if the loop gets to its last permitted iteration, iteration number
  \<open>max_turns\<close> (the state after \<open>max_turns - 1\<close> iterations that all dispatched), and the
  response of the model there still holds an action, one of the table whose handler returns
  an observation, then \<open>query\<close> returns the history that ends with the assistant message
  of that response. The handler has been dispatched, as the last event, and its observation
  computed, but no message carries it: the history returned is the one sent to the model on
  that iteration and the response, nothing more. The same holds of the loop from any state.
\<close>

theorem final_observation_discarded:
  "(state_after llm n p st evs = Some (p', st', evs')
      \<and> actions (llm (messages st' @ [\<lparr>role = ''user'', content = p'\<rparr>])) = (a, i) # rest
      \<and> KNOWN_ACTIONS a = Some h \<and> h i = Returns obs
    \<longrightarrow> turns llm (Suc n) p st evs
          = (Returns (messages st' @ [\<lparr>role = ''user'', content = p'\<rparr>,
               \<lparr>role = ''assistant'',
                  content = llm (messages st' @ [\<lparr>role = ''user'', content = p'\<rparr>])\<rparr>]),
             evs' @ [ModelCall (messages st' @ [\<lparr>role = ''user'', content = p'\<rparr>]),
                     Dispatch a i]))
   \<and> (0 < max_turns
      \<and> state_after llm (nat (max_turns - 1)) question create_agent [] = Some (p', st', evs')
      \<and> actions (llm (messages st' @ [\<lparr>role = ''user'', content = p'\<rparr>])) = (a, i) # rest
      \<and> KNOWN_ACTIONS a = Some h \<and> h i = Returns obs
    \<longrightarrow> query llm question max_turns
          = (Returns (messages st' @ [\<lparr>role = ''user'', content = p'\<rparr>,
               \<lparr>role = ''assistant'',
                  content = llm (messages st' @ [\<lparr>role = ''user'', content = p'\<rparr>])\<rparr>]),
             evs' @ [ModelCall (messages st' @ [\<lparr>role = ''user'', content = p'\<rparr>]),
                     Dispatch a i]))"
proof (intro conjI impI)
  assume "state_after llm n p st evs = Some (p', st', evs')
      \<and> actions (llm (messages st' @ [\<lparr>role = ''user'', content = p'\<rparr>])) = (a, i) # rest
      \<and> KNOWN_ACTIONS a = Some h \<and> h i = Returns obs"
  then show "turns llm (Suc n) p st evs
          = (Returns (messages st' @ [\<lparr>role = ''user'', content = p'\<rparr>,
               \<lparr>role = ''assistant'',
                  content = llm (messages st' @ [\<lparr>role = ''user'', content = p'\<rparr>])\<rparr>]),
             evs' @ [ModelCall (messages st' @ [\<lparr>role = ''user'', content = p'\<rparr>]),
                     Dispatch a i])"
    by (elim conjE) (rule last_turn_of_run)
next
  assume h: "0 < max_turns
      \<and> state_after llm (nat (max_turns - 1)) question create_agent [] = Some (p', st', evs')
      \<and> actions (llm (messages st' @ [\<lparr>role = ''user'', content = p'\<rparr>])) = (a, i) # rest
      \<and> KNOWN_ACTIONS a = Some h \<and> h i = Returns obs"
  then have n: "nat max_turns = Suc (nat (max_turns - 1))" by auto
  from h show "query llm question max_turns
          = (Returns (messages st' @ [\<lparr>role = ''user'', content = p'\<rparr>,
               \<lparr>role = ''assistant'',
                  content = llm (messages st' @ [\<lparr>role = ''user'', content = p'\<rparr>])\<rparr>]),
             evs' @ [ModelCall (messages st' @ [\<lparr>role = ''user'', content = p'\<rparr>]),
                     Dispatch a i])"
    unfolding query_def n by (elim conjE) (rule last_turn_of_run)
qed

text \<open>
  The theorem on a model that asks for \<open>model_memory\<close> at every turn, with two turns
  allowed: the first observation is the prompt of the second turn, the second one is
  computed and appears nowhere.
\<close>

theorem final_observation_discarded_witness:
  "state_after (\<lambda>ms. ''Action: model_memory: x'') (nat (2 - 1)) ''q'' create_agent []
     = Some (''Observation: No conversion rate found for x'',
             create_agent\<lparr>messages :=
               [\<lparr>role = ''system'', content = tutorial_prompt\<rparr>,
                \<lparr>role = ''user'', content = ''q''\<rparr>,
                \<lparr>role = ''assistant'', content = ''Action: model_memory: x''\<rparr>]\<rparr>,
             [ModelCall [\<lparr>role = ''system'', content = tutorial_prompt\<rparr>,
                         \<lparr>role = ''user'', content = ''q''\<rparr>],
              Dispatch ''model_memory'' ''x''])
   \<and> model_memory ''x'' = ''No conversion rate found for x''
   \<and> query (\<lambda>ms. ''Action: model_memory: x'') ''q'' 2
     = (Returns [\<lparr>role = ''system'', content = tutorial_prompt\<rparr>,
                 \<lparr>role = ''user'', content = ''q''\<rparr>,
                 \<lparr>role = ''assistant'', content = ''Action: model_memory: x''\<rparr>,
                 \<lparr>role = ''user'', content = ''Observation: No conversion rate found for x''\<rparr>,
                 \<lparr>role = ''assistant'', content = ''Action: model_memory: x''\<rparr>],
        [ModelCall [\<lparr>role = ''system'', content = tutorial_prompt\<rparr>,
                    \<lparr>role = ''user'', content = ''q''\<rparr>],
         Dispatch ''model_memory'' ''x'',
         ModelCall [\<lparr>role = ''system'', content = tutorial_prompt\<rparr>,
                    \<lparr>role = ''user'', content = ''q''\<rparr>,
                    \<lparr>role = ''assistant'', content = ''Action: model_memory: x''\<rparr>,
                    \<lparr>role = ''user'', content = ''Observation: No conversion rate found for x''\<rparr>],
         Dispatch ''model_memory'' ''x''])"
proof -
  let ?llm = "\<lambda>ms :: message list. ''Action: model_memory: x''"
  let ?p = "''Observation: No conversion rate found for x''"
  let ?st = "create_agent\<lparr>messages :=
               [\<lparr>role = ''system'', content = tutorial_prompt\<rparr>,
                \<lparr>role = ''user'', content = ''q''\<rparr>,
                \<lparr>role = ''assistant'', content = ''Action: model_memory: x''\<rparr>]\<rparr>"
  let ?evs = "[ModelCall [\<lparr>role = ''system'', content = tutorial_prompt\<rparr>,
                         \<lparr>role = ''user'', content = ''q''\<rparr>],
              Dispatch ''model_memory'' ''x'']"
  have s: "state_after ?llm (nat (2 - 1)) ''q'' create_agent [] = Some (?p, ?st, ?evs)"
    by (simp add: state_after_step Let_def actions_model_memory_x known_model_memory
          model_memory_x messages_create_agent)
  have h: "(0::int) < 2
      \<and> state_after ?llm (nat (2 - 1)) ''q'' create_agent [] = Some (?p, ?st, ?evs)
      \<and> actions (?llm (messages ?st @ [\<lparr>role = ''user'', content = ?p\<rparr>]))
          = (''model_memory'', ''x'') # []
      \<and> KNOWN_ACTIONS ''model_memory'' = Some (\<lambda>unit. Returns (model_memory unit))
      \<and> (\<lambda>unit. Returns (model_memory unit)) ''x'' = Returns ''No conversion rate found for x''"
    using s by (simp add: actions_model_memory_x known_model_memory model_memory_x)
  from final_observation_discarded[THEN conjunct2, THEN mp, OF h] s model_memory_x
  show ?thesis by simp
qed

text \<open>
  The other direction: a history returned by \<open>query\<close> whose last message holds an action
  is the history of a run that used all its iterations and ended in a dispatch.
\<close>

lemma history_ending_in_action:
  "query llm question max_turns = (Returns msgs, evs) \<and> 0 < max_turns
   \<and> actions (content (last msgs)) = (a, i) # rest
   \<longrightarrow> role (last msgs) = ''assistant'' \<and> last evs = Dispatch a i
       \<and> (\<exists>h obs. KNOWN_ACTIONS a = Some h \<and> h i = Returns obs)
       \<and> length (filter is_ModelCall evs) = nat max_turns
       \<and> length msgs = 1 + 2 * nat max_turns"
proof
  assume h: "query llm question max_turns = (Returns msgs, evs) \<and> 0 < max_turns
   \<and> actions (content (last msgs)) = (a, i) # rest"
  then have "turns llm (nat max_turns) question create_agent [] = (Returns msgs, evs)"
    and "0 < nat max_turns" and "actions (content (last msgs)) = (a, i) # rest"
    by (simp_all add: query_def)
  from turns_exhausted[OF this]
  show "role (last msgs) = ''assistant'' \<and> last evs = Dispatch a i
       \<and> (\<exists>h obs. KNOWN_ACTIONS a = Some h \<and> h i = Returns obs)
       \<and> length (filter is_ModelCall evs) = nat max_turns
       \<and> length msgs = 1 + 2 * nat max_turns"
    by (simp add: messages_create_agent)
qed

end
